theory Spec2Isabelle
  imports Complex_Main "HOL-Library.Word"
begin

section \<open>Well block-average pressures: the calculator of PAvgCalculator.cpp\<close>

text \<open>
  A shallow embedding of \<^verbatim>\<open>src/opm/input/eclipse/Schedule/Well/PAvgCalculator.cpp\<close>.
  Member functions take the object they mutate as their last argument and return the
  updated object.
\<close>

subsection \<open>Values of type double\<close>

text \<open>
  A \<^verbatim>\<open>double\<close> is a finite number, one of the two infinities, or NaN. The finite
  numbers are idealised as reals: a finite result is not rounded, and there is no signed
  zero (zero behaves as +0). Overflow and the special values follow IEEE 754, so that a
  result too large for a double, a division by zero and an invalid operation are visible.
\<close>

datatype double = Fin real | PInf | NInf | NaN

text \<open>
  Rounding to nearest takes an exact result to an infinity as soon as its magnitude reaches
  \<open>2\<^sup>1\<^sup>0\<^sup>2\<^sup>4 - 2\<^sup>9\<^sup>7\<^sup>0\<close>, half a unit in the last place above the largest double.
\<close>

definition DBL_OVERFLOW :: real where
  "DBL_OVERFLOW = 2 ^ 1024 - 2 ^ 970"

fun isfinite :: "double \<Rightarrow> bool" where
  "isfinite (Fin a) = True"
| "isfinite PInf = False"
| "isfinite NInf = False"
| "isfinite NaN = False"

fun dneg :: "double \<Rightarrow> double" where
  "dneg (Fin a) = Fin (- a)"
| "dneg PInf = NInf"
| "dneg NInf = PInf"
| "dneg NaN = NaN"

text \<open>The infinity whose sign is positive exactly when the flag is set.\<close>

definition inf_of_sign :: "bool \<Rightarrow> double" where
  "inf_of_sign pos = (if pos then PInf else NInf)"

text \<open>The double for the exact result of an operation on finite numbers.\<close>

definition finite_result :: "real \<Rightarrow> double" where
  "finite_result r = (if \<bar>r\<bar> < DBL_OVERFLOW then Fin r else inf_of_sign (0 < r))"

text \<open>
  A finite number below the overflow threshold, as every finite double is.
\<close>

fun finite_double :: "double \<Rightarrow> bool" where
  "finite_double (Fin a) = (\<bar>a\<bar> < DBL_OVERFLOW)"
| "finite_double PInf = False"
| "finite_double NInf = False"
| "finite_double NaN = False"

fun dadd :: "double \<Rightarrow> double \<Rightarrow> double" where
  "dadd (Fin a) (Fin b) = finite_result (a + b)"
| "dadd NaN y = NaN"
| "dadd x NaN = NaN"
| "dadd PInf NInf = NaN"
| "dadd NInf PInf = NaN"
| "dadd PInf y = PInf"
| "dadd NInf y = NInf"
| "dadd x PInf = PInf"
| "dadd x NInf = NInf"

definition dsub :: "double \<Rightarrow> double \<Rightarrow> double" where
  "dsub x y = dadd x (dneg y)"

fun dmul :: "double \<Rightarrow> double \<Rightarrow> double" where
  "dmul (Fin a) (Fin b) = finite_result (a * b)"
| "dmul NaN y = NaN"
| "dmul x NaN = NaN"
| "dmul (Fin a) PInf = (if a = 0 then NaN else inf_of_sign (0 < a))"
| "dmul (Fin a) NInf = (if a = 0 then NaN else inf_of_sign (a < 0))"
| "dmul PInf (Fin b) = (if b = 0 then NaN else inf_of_sign (0 < b))"
| "dmul NInf (Fin b) = (if b = 0 then NaN else inf_of_sign (b < 0))"
| "dmul PInf PInf = PInf"
| "dmul PInf NInf = NInf"
| "dmul NInf PInf = NInf"
| "dmul NInf NInf = PInf"

fun ddiv :: "double \<Rightarrow> double \<Rightarrow> double" where
  "ddiv (Fin a) (Fin b) =
     (if b = 0 then (if a = 0 then NaN else inf_of_sign (0 < a)) else finite_result (a / b))"
| "ddiv NaN y = NaN"
| "ddiv x NaN = NaN"
| "ddiv (Fin a) PInf = Fin 0"
| "ddiv (Fin a) NInf = Fin 0"
| "ddiv PInf (Fin b) = inf_of_sign (0 \<le> b)"
| "ddiv NInf (Fin b) = inf_of_sign (b < 0)"
| "ddiv PInf PInf = NaN"
| "ddiv PInf NInf = NaN"
| "ddiv NInf PInf = NaN"
| "ddiv NInf NInf = NaN"

fun dabs :: "double \<Rightarrow> double" where
  "dabs (Fin a) = Fin \<bar>a\<bar>"
| "dabs PInf = PInf"
| "dabs NInf = PInf"
| "dabs NaN = NaN"

text \<open>\<^verbatim>\<open>x < y\<close>; every comparison with NaN is false.\<close>

fun dless :: "double \<Rightarrow> double \<Rightarrow> bool" where
  "dless (Fin a) (Fin b) = (a < b)"
| "dless NaN y = False"
| "dless x NaN = False"
| "dless NInf NInf = False"
| "dless NInf y = True"
| "dless PInf y = False"
| "dless (Fin a) PInf = True"
| "dless (Fin a) NInf = False"

text \<open>
  \<^verbatim>\<open>std::isnormal\<close>: neither zero, subnormal, infinite nor NaN. The smallest normal
  double is \<open>2\<^sup>-\<^sup>1\<^sup>0\<^sup>2\<^sup>2\<close>.
\<close>

definition DBL_MIN :: real where
  "DBL_MIN = 1 / 2 ^ 1022"

fun isnormal :: "double \<Rightarrow> bool" where
  "isnormal (Fin a) = (DBL_MIN \<le> \<bar>a\<bar>)"
| "isnormal PInf = False"
| "isnormal NInf = False"
| "isnormal NaN = False"

text \<open>
  \<^verbatim>\<open>pressureOffset\<close>: \<^verbatim>\<open>density * (refDepth - depth) * gravity\<close>.
\<close>

definition pressureOffset :: "double \<Rightarrow> double \<Rightarrow> double \<Rightarrow> double \<Rightarrow> double" where
  "pressureOffset density depth gravity refDepth =
     dmul (dmul density (dsub refDepth depth)) gravity"

subsection \<open>RunningCompensatedSummation\<close>

record RunningCompensatedSummation =
  rcs_value :: double
  rcs_err :: double

text \<open>A value-initialised summation, which is also what \<^verbatim>\<open>clear()\<close> leaves.\<close>

definition RCS_zero :: RunningCompensatedSummation where
  "RCS_zero = \<lparr>rcs_value = Fin 0, rcs_err = Fin 0\<rparr>"

text \<open>\<^verbatim>\<open>operator+=(const T& x)\<close>: the Kahan step.\<close>

definition RCS_add :: "double \<Rightarrow> RunningCompensatedSummation \<Rightarrow> RunningCompensatedSummation" where
  "RCS_add x this =
     (let t = rcs_value this;
          err1 = dadd (rcs_err this) x;
          v = dadd t err1;
          err2 = dadd err1 (dsub t v)
      in \<lparr>rcs_value = v, rcs_err = err2\<rparr>)"

text \<open>
  \<^verbatim>\<open>operator+=(const RunningCompensatedSummation& other)\<close>: the other sum's error term is
  discarded.
\<close>

definition RCS_add_sum ::
  "RunningCompensatedSummation \<Rightarrow> RunningCompensatedSummation \<Rightarrow> RunningCompensatedSummation" where
  "RCS_add_sum other this = RCS_add (rcs_value other) this"

text \<open>\<^verbatim>\<open>operator*=\<close>: scales the sum, leaves the error term.\<close>

definition RCS_mul :: "double \<Rightarrow> RunningCompensatedSummation \<Rightarrow> RunningCompensatedSummation" where
  "RCS_mul alpha this = this\<lparr>rcs_value := dmul (rcs_value this) alpha\<rparr>"

definition RCS_clear :: "RunningCompensatedSummation \<Rightarrow> RunningCompensatedSummation" where
  "RCS_clear this = this\<lparr>rcs_value := Fin 0, rcs_err := Fin 0\<rparr>"

subsection \<open>WeightedRunningAverage\<close>

record WeightedRunningAverage =
  wra_sum :: RunningCompensatedSummation
  wra_weight :: RunningCompensatedSummation

definition WRA_zero :: WeightedRunningAverage where
  "WRA_zero = \<lparr>wra_sum = RCS_zero, wra_weight = RCS_zero\<rparr>"

definition WRA_clear :: "WeightedRunningAverage \<Rightarrow> WeightedRunningAverage" where
  "WRA_clear this = this\<lparr>wra_sum := RCS_clear (wra_sum this), wra_weight := RCS_clear (wra_weight this)\<rparr>"

text \<open>The read-only accessors \<^verbatim>\<open>sum()\<close> and \<^verbatim>\<open>weight()\<close>.\<close>

definition sum_of :: "WeightedRunningAverage \<Rightarrow> double" where
  "sum_of this = rcs_value (wra_sum this)"

definition weight_of :: "WeightedRunningAverage \<Rightarrow> double" where
  "weight_of this = rcs_value (wra_weight this)"

text \<open>\<^verbatim>\<open>add(const T& x, const W& w)\<close>.\<close>

definition WRA_add :: "double \<Rightarrow> double \<Rightarrow> WeightedRunningAverage \<Rightarrow> WeightedRunningAverage" where
  "WRA_add x w this =
     this\<lparr>wra_sum := RCS_add (dmul w x) (wra_sum this),
          wra_weight := RCS_add w (wra_weight this)\<rparr>"

text \<open>The free function \<^verbatim>\<open>value(avg)\<close>.\<close>

definition value_of :: "WeightedRunningAverage \<Rightarrow> double" where
  "value_of avg =
     (let w = weight_of avg
      in if dless (Fin 0) (dabs w) then ddiv (sum_of avg) w else Fin 0)"

text \<open>\<^verbatim>\<open>add(const WeightedRunningAverage& x, const W& w)\<close>.\<close>

definition WRA_add_avg ::
  "WeightedRunningAverage \<Rightarrow> double \<Rightarrow> WeightedRunningAverage \<Rightarrow> WeightedRunningAverage" where
  "WRA_add_avg x w this = WRA_add (value_of x) w this"

text \<open>\<^verbatim>\<open>operator*=(const W& alpha)\<close>.\<close>

definition WRA_mul :: "double \<Rightarrow> WeightedRunningAverage \<Rightarrow> WeightedRunningAverage" where
  "WRA_mul alpha this = this\<lparr>wra_sum := RCS_mul alpha (wra_sum this)\<rparr>"

text \<open>\<^verbatim>\<open>operator+=(const WeightedRunningAverage& other)\<close>.\<close>

definition WRA_combine ::
  "WeightedRunningAverage \<Rightarrow> WeightedRunningAverage \<Rightarrow> WeightedRunningAverage" where
  "WRA_combine other this =
     this\<lparr>wra_sum := RCS_add_sum (wra_sum other) (wra_sum this),
          wra_weight := RCS_add_sum (wra_weight other) (wra_weight this)\<rparr>"

text \<open>
  \<^verbatim>\<open>mutableSum() = v\<close> and \<^verbatim>\<open>mutableWeight() = v\<close>: a write through
  \<^verbatim>\<open>mutableValue()\<close>, which reaches the sum value and not the error term.
\<close>

definition set_mutableSum :: "double \<Rightarrow> WeightedRunningAverage \<Rightarrow> WeightedRunningAverage" where
  "set_mutableSum v this = this\<lparr>wra_sum := (wra_sum this)\<lparr>rcs_value := v\<rparr>\<rparr>"

definition set_mutableWeight :: "double \<Rightarrow> WeightedRunningAverage \<Rightarrow> WeightedRunningAverage" where
  "set_mutableWeight v this = this\<lparr>wra_weight := (wra_weight this)\<lparr>rcs_value := v\<rparr>\<rparr>"

subsection \<open>Fixed-size arrays\<close>

text \<open>\<^verbatim>\<open>std::array<T, 3>\<close> and \<^verbatim>\<open>std::array<T, 4>\<close>, read and written at constant indices.\<close>

datatype 'a array3 = Array3 'a 'a 'a

datatype 'a array4 = Array4 'a 'a 'a 'a

fun at3 :: "'a array3 \<Rightarrow> nat \<Rightarrow> 'a" where
  "at3 (Array3 a b c) i = (if i = 0 then a else if i = 1 then b else c)"

fun upd3 :: "nat \<Rightarrow> 'a \<Rightarrow> 'a array3 \<Rightarrow> 'a array3" where
  "upd3 i v (Array3 a b c) =
     (if i = 0 then Array3 v b c else if i = 1 then Array3 a v c
      else if i = 2 then Array3 a b v else Array3 a b c)"

fun map3 :: "('a \<Rightarrow> 'b) \<Rightarrow> 'a array3 \<Rightarrow> 'b array3" where
  "map3 f (Array3 a b c) = Array3 (f a) (f b) (f c)"

fun at4 :: "'a array4 \<Rightarrow> nat \<Rightarrow> 'a" where
  "at4 (Array4 a b c d) i = (if i = 0 then a else if i = 1 then b else if i = 2 then c else d)"

fun upd4 :: "nat \<Rightarrow> 'a \<Rightarrow> 'a array4 \<Rightarrow> 'a array4" where
  "upd4 i v (Array4 a b c d) =
     (if i = 0 then Array4 v b c d else if i = 1 then Array4 a v c d
      else if i = 2 then Array4 a b v d else if i = 3 then Array4 a b c v
      else Array4 a b c d)"

fun map4 :: "('a \<Rightarrow> 'b) \<Rightarrow> 'a array4 \<Rightarrow> 'b array4" where
  "map4 f (Array4 a b c d) = Array4 (f a) (f b) (f c) (f d)"

fun list_of4 :: "'a array4 \<Rightarrow> 'a list" where
  "list_of4 (Array4 a b c d) = [a, b, c, d]"

text \<open>\<^verbatim>\<open>clear(std::array<WeightedRunningAverage, N>&)\<close>, for the two sizes in use.\<close>

definition clear3 :: "WeightedRunningAverage array3 \<Rightarrow> WeightedRunningAverage array3" where
  "clear3 avg = map3 WRA_clear avg"

definition clear4 :: "WeightedRunningAverage array4 \<Rightarrow> WeightedRunningAverage array4" where
  "clear4 avg = map4 WRA_clear avg"

subsection \<open>The accumulator\<close>

text \<open>
  \<^verbatim>\<open>PAvgCalculator::Accumulator\<close> only forwards to its \<^verbatim>\<open>Impl\<close>, which it owns by
  value semantics; the two are one record here. \<open>avg\<close> is \<^verbatim>\<open>avg_\<close>
  (0: WBP, 1: WBP4, 2: WBP5, 3: WBP9) and \<open>terms\<close> is \<^verbatim>\<open>term_\<close>
  (0: centre, 1: rectangular, 2: diagonal).
\<close>

record Accumulator =
  avg :: "WeightedRunningAverage array4"
  terms :: "WeightedRunningAverage array3"

text \<open>A default-constructed accumulator.\<close>

definition Accumulator_new :: Accumulator where
  "Accumulator_new =
     \<lparr>avg = Array4 WRA_zero WRA_zero WRA_zero WRA_zero,
      terms = Array3 WRA_zero WRA_zero WRA_zero\<rparr>"

definition addCentre :: "double \<Rightarrow> double \<Rightarrow> Accumulator \<Rightarrow> Accumulator" where
  "addCentre weight press this = this\<lparr>terms := upd3 0 (WRA_add press weight (at3 (terms this) 0)) (terms this)\<rparr>"

definition addRectangular :: "double \<Rightarrow> double \<Rightarrow> Accumulator \<Rightarrow> Accumulator" where
  "addRectangular weight press this = this\<lparr>terms := upd3 1 (WRA_add press weight (at3 (terms this) 1)) (terms this)\<rparr>"

definition addDiagonal :: "double \<Rightarrow> double \<Rightarrow> Accumulator \<Rightarrow> Accumulator" where
  "addDiagonal weight press this = this\<lparr>terms := upd3 2 (WRA_add press weight (at3 (terms this) 2)) (terms this)\<rparr>"

text \<open>
  \<^verbatim>\<open>add(weight, other)\<close>: for every index \<open>i\<close>,
  \<^verbatim>\<open>avg_[i].add(other.avg_[i], weight)\<close>.
\<close>

definition Accumulator_add :: "double \<Rightarrow> Accumulator \<Rightarrow> Accumulator \<Rightarrow> Accumulator" where
  "Accumulator_add weight other this =
     this\<lparr>avg := fold (\<lambda>i a. upd4 i (WRA_add_avg (at4 (avg other) i) weight (at4 a i)) a)
                       [0..<4] (avg this)\<rparr>"

definition prepareAccumulation :: "Accumulator \<Rightarrow> Accumulator" where
  "prepareAccumulation this = this\<lparr>avg := clear4 (avg this)\<rparr>"

definition prepareContribution :: "Accumulator \<Rightarrow> Accumulator" where
  "prepareContribution this = this\<lparr>terms := clear3 (terms this)\<rparr>"

definition combineDirect :: "Accumulator \<Rightarrow> Accumulator" where
  "combineDirect this =
     (let t = terms this;
          a = avg this;
          a = upd4 2 (WRA_combine (at3 t 0) (at4 a 2)) a;
          a = upd4 2 (WRA_combine (at3 t 1) (at4 a 2)) a;
          a = upd4 3 (WRA_combine (at3 t 0) (at4 a 3)) a;
          a = upd4 3 (WRA_combine (at3 t 1) (at4 a 3)) a;
          a = upd4 3 (WRA_combine (at3 t 2) (at4 a 3)) a
      in this\<lparr>avg := a\<rparr>)"

definition combineWeighted :: "double \<Rightarrow> Accumulator \<Rightarrow> Accumulator" where
  "combineWeighted innerWeight this =
     (let t = terms this;
          a = avg this;
          a = upd4 2 (WRA_add_avg (at3 t 1) (dsub (Fin 1) innerWeight)
                        (WRA_add_avg (at3 t 0) innerWeight (at4 a 2))) a;
          outer = at3 t 1;
          outer = WRA_combine (at3 t 2) outer;
          a = upd4 3 (WRA_add_avg outer (dsub (Fin 1) innerWeight)
                        (WRA_add_avg (at3 t 0) innerWeight (at4 a 3))) a
      in this\<lparr>avg := a\<rparr>)"

definition commitContribution :: "double \<Rightarrow> Accumulator \<Rightarrow> Accumulator" where
  "commitContribution innerWeight this =
     (let this = this\<lparr>avg := upd4 0 (WRA_combine (at3 (terms this) 0) (at4 (avg this) 0)) (avg this)\<rparr>;
          this = this\<lparr>avg := upd4 1 (WRA_combine (at3 (terms this) 1) (at4 (avg this) 1)) (avg this)\<rparr>
      in if dless innerWeight (Fin 0) then combineDirect this
         else combineWeighted innerWeight this)"

text \<open>
  \<^verbatim>\<open>getRunningAverages\<close>: the buffer \<^verbatim>\<open>std::array<double, 8>\<close> holds sum and weight of
  each result average, in the order of \<^verbatim>\<open>avg_\<close>.
\<close>

definition getRunningAverages :: "Accumulator \<Rightarrow> double list" where
  "getRunningAverages this = concat (map (\<lambda>a. [sum_of a, weight_of a]) (list_of4 (avg this)))"

text \<open>
  \<^verbatim>\<open>assignRunningAverages\<close>: the loop's counter \<open>j\<close> is \<open>2 * i\<close> when it reaches the
  average of index \<open>i\<close>.
\<close>

definition assignRunningAverages :: "double list \<Rightarrow> Accumulator \<Rightarrow> Accumulator" where
  "assignRunningAverages a this =
     this\<lparr>avg := fold (\<lambda>i av. upd4 i (set_mutableWeight (a ! (2 * i + 1))
                                      (set_mutableSum (a ! (2 * i)) (at4 av i))) av)
                       [0..<4] (avg this)\<rparr>"

text \<open>
  \<^verbatim>\<open>Result::WBPMode\<close> is declared in the header, which is not part of the sources read
  here; its enumerators index \<^verbatim>\<open>avg_\<close> in the order the source file documents
  (0: WBP, 1: WBP4, 2: WBP5, 3: WBP9).
\<close>

datatype WBPMode = WBP | WBP4 | WBP5 | WBP9

fun mode_index :: "WBPMode \<Rightarrow> nat" where
  "mode_index WBP = 0"
| "mode_index WBP4 = 1"
| "mode_index WBP5 = 2"
| "mode_index WBP9 = 3"

definition getAverageValue :: "WBPMode \<Rightarrow> Accumulator \<Rightarrow> double" where
  "getAverageValue type this = value_of (at4 (avg this) (mode_index type))"

text \<open>\<^verbatim>\<open>PAvgCalculator::Result\<close>: the array \<^verbatim>\<open>wbp_\<close> of four pressures.\<close>

record Result =
  wbp :: "double array4"

definition Result_new :: Result where
  "Result_new = \<lparr>wbp = Array4 (Fin 0) (Fin 0) (Fin 0) (Fin 0)\<rparr>"

definition Result_set :: "WBPMode \<Rightarrow> double \<Rightarrow> Result \<Rightarrow> Result" where
  "Result_set type v this = this\<lparr>wbp := upd4 (mode_index type) v (wbp this)\<rparr>"

definition Result_value :: "WBPMode \<Rightarrow> Result \<Rightarrow> double" where
  "Result_value type this = at4 (wbp this) (mode_index type)"

definition getFinalResult :: "Accumulator \<Rightarrow> Result" where
  "getFinalResult this =
     fold (\<lambda>type result. Result_set type (getAverageValue type this) result)
          [WBP, WBP4, WBP5, WBP9] Result_new"

text \<open>\<^verbatim>\<open>linearCombination(alpha, x, beta, y)\<close>: element-wise \<^verbatim>\<open>alpha*xi + beta*yi\<close>.\<close>

fun transform4 :: "('a \<Rightarrow> 'b \<Rightarrow> 'c) \<Rightarrow> 'a array4 \<Rightarrow> 'b array4 \<Rightarrow> 'c array4" where
  "transform4 f (Array4 a b c d) (Array4 a' b' c' d') = Array4 (f a a') (f b b') (f c c') (f d d')"

definition linearCombination :: "double \<Rightarrow> Result \<Rightarrow> double \<Rightarrow> Result \<Rightarrow> Result" where
  "linearCombination alpha x beta y =
     x\<lparr>wbp := transform4 (\<lambda>xi yi. dadd (dmul alpha xi) (dmul beta yi)) (wbp x) (wbp y)\<rparr>"

subsection \<open>Collaborators declared outside the translation unit\<close>

text \<open>
  The grid, the well connections, the source data and the controls are classes of other
  translation units. Each is a record of the accessors this file calls. Positions in a
  vector are natural numbers; global cell identifiers and grid coordinates are
  \<^verbatim>\<open>std::size_t\<close>, on which \<^verbatim>\<open>k - 1\<close> wraps around at zero.
\<close>

type_synonym size_t = "64 word"

text \<open>
  \<^verbatim>\<open>GridDims\<close>. \<open>getGlobalIndex\<close> yields no index for an inactive cell, as the
  documentation of \<^verbatim>\<open>globalCellIndex\<close> states.
\<close>

record GridDims =
  getNX :: size_t
  getNY :: size_t
  getNZ :: size_t
  getGlobalIndex :: "size_t \<Rightarrow> size_t \<Rightarrow> size_t \<Rightarrow> size_t option"
  getIJK :: "size_t \<Rightarrow> size_t \<times> size_t \<times> size_t"

datatype State = OPEN | SHUT | AUTO

datatype Direction = DirX | DirY | DirZ

text \<open>\<^verbatim>\<open>Connection\<close>: \<open>conn_depth\<close> is its accessor \<^verbatim>\<open>depth()\<close>.\<close>

record Connection =
  global_index :: size_t
  state :: State
  CF :: double
  conn_depth :: double
  dir :: Direction

text \<open>
  \<^verbatim>\<open>SourceDataSpan\<close>, read at the items \<^verbatim>\<open>Pressure\<close>, \<^verbatim>\<open>PoreVol\<close> and
  \<^verbatim>\<open>MixtureDensity\<close>; \<open>wellBlocks\<close> is addressed by global cell identifier and
  \<open>wellConns\<close> by connection position.
\<close>

record SourceDataSpan =
  Pressure :: double
  PoreVol :: double
  MixtureDensity :: double

record Sources =
  wellBlocks :: "size_t \<Rightarrow> SourceDataSpan"
  wellConns :: "nat \<Rightarrow> SourceDataSpan"

text \<open>
  \<^verbatim>\<open>PAvg::DepthCorrection\<close>. \<open>Other n\<close> is a value of the enumeration type that is none
  of its three enumerators, \<open>n\<close> being the integer it casts to.
\<close>

datatype DepthCorrection = WELL | RES | NONE | Other int

record PAvg =
  open_connections :: bool
  inner_weight :: double
  conn_weight :: double
  depth_correction :: DepthCorrection

text \<open>
  What the calculator can raise: \<^verbatim>\<open>std::invalid_argument\<close> with the message
  \<^verbatim>\<open>Unsupported WPAVE depth correction flag 'n'\<close>, which prints the flag it carries as
  an integer, and a failed \<^verbatim>\<open>assert\<close>.
\<close>

datatype error = invalid_argument DepthCorrection | assertion_failure

subsection \<open>The calculator's state\<close>

record PAvgConnection =
  ctf :: double
  depth :: double
  cell :: nat
  rectNeighbours :: "nat list"
  diagNeighbours :: "nat list"

record PAvgCalculator =
  contributingCells :: "size_t list"
  connections :: "PAvgConnection list"
  openConns :: "nat list"
  accumCTF :: Accumulator
  accumPV :: Accumulator
  averagePressures :: Result

text \<open>The members of a calculator before the constructor's body runs.\<close>

definition PAvgCalculator_empty :: PAvgCalculator where
  "PAvgCalculator_empty =
     \<lparr>contributingCells = [], connections = [], openConns = [],
      accumCTF = Accumulator_new, accumPV = Accumulator_new, averagePressures = Result_new\<rparr>"

subsection \<open>Building the topology\<close>

definition globalCellIndex :: "GridDims \<Rightarrow> size_t \<Rightarrow> size_t \<Rightarrow> size_t \<Rightarrow> size_t option" where
  "globalCellIndex cellIndexMap i j k =
     (if i \<ge> getNX cellIndexMap \<or> j \<ge> getNY cellIndexMap \<or> k \<ge> getNZ cellIndexMap
      then None
      else getGlobalIndex cellIndexMap i j k)"

text \<open>
  \<^verbatim>\<open>SetupMap\<close> and its \<^verbatim>\<open>emplace(key, value)\<close>: the entry now stored under the key,
  whether it was inserted, and the map.
\<close>

type_synonym SetupMap = "size_t \<rightharpoonup> nat"

definition emplace :: "size_t \<Rightarrow> nat \<Rightarrow> SetupMap \<Rightarrow> (size_t \<times> nat) \<times> bool \<times> SetupMap" where
  "emplace k v m =
     (case m k of
        Some v' \<Rightarrow> ((k, v'), False, m)
      | None \<Rightarrow> ((k, v), True, m(k \<mapsto> v)))"

datatype NeighbourKind = Rectangular | Diagonal

text \<open>An update of \<^verbatim>\<open>connections_.back()\<close>.\<close>

definition update_back :: "('a \<Rightarrow> 'a) \<Rightarrow> 'a list \<Rightarrow> 'a list" where
  "update_back f xs = (if xs = [] then xs else butlast xs @ [f (last xs)])"

definition addNeighbour ::
  "size_t option \<Rightarrow> NeighbourKind \<Rightarrow> PAvgCalculator \<times> SetupMap \<Rightarrow> PAvgCalculator \<times> SetupMap" where
  "addNeighbour neighbour neighbourKind s =
     (case neighbour of
        None \<Rightarrow> s
      | Some n \<Rightarrow>
          (let this = fst s;
               (localCellPos, newCellInserted, setupHelperMap) =
                  emplace n (length (contributingCells this)) (snd s);
               this = (if newCellInserted
                       then this\<lparr>contributingCells := contributingCells this @ [fst localCellPos]\<rparr>
                       else this);
               this = (if neighbourKind = Rectangular
                       then this\<lparr>connections := update_back
                              (\<lambda>c. c\<lparr>rectNeighbours := rectNeighbours c @ [snd localCellPos]\<rparr>)
                              (connections this)\<rparr>
                       else this\<lparr>connections := update_back
                              (\<lambda>c. c\<lparr>diagNeighbours := diagNeighbours c @ [snd localCellPos]\<rparr>)
                              (connections this)\<rparr>)
           in (this, setupHelperMap)))"

definition lastConnsCell :: "PAvgCalculator \<Rightarrow> size_t" where
  "lastConnsCell this = contributingCells this ! cell (last (connections this))"

definition addNeighbours_X :: "GridDims \<Rightarrow> PAvgCalculator \<times> SetupMap \<Rightarrow> PAvgCalculator \<times> SetupMap" where
  "addNeighbours_X cellIndexMap s =
     (let (i, j, k) = getIJK cellIndexMap (lastConnsCell (fst s))
      in fold (\<lambda>(neighbour, kind). addNeighbour neighbour kind)
           [(globalCellIndex cellIndexMap i j (k + 1), Rectangular),
            (globalCellIndex cellIndexMap i j (k - 1), Rectangular),
            (globalCellIndex cellIndexMap i (j + 1) k, Rectangular),
            (globalCellIndex cellIndexMap i (j - 1) k, Rectangular),
            (globalCellIndex cellIndexMap i (j + 1) (k + 1), Diagonal),
            (globalCellIndex cellIndexMap i (j + 1) (k - 1), Diagonal),
            (globalCellIndex cellIndexMap i (j - 1) (k + 1), Diagonal),
            (globalCellIndex cellIndexMap i (j - 1) (k - 1), Diagonal)] s)"

definition addNeighbours_Y :: "GridDims \<Rightarrow> PAvgCalculator \<times> SetupMap \<Rightarrow> PAvgCalculator \<times> SetupMap" where
  "addNeighbours_Y cellIndexMap s =
     (let (i, j, k) = getIJK cellIndexMap (lastConnsCell (fst s))
      in fold (\<lambda>(neighbour, kind). addNeighbour neighbour kind)
           [(globalCellIndex cellIndexMap (i + 1) j k, Rectangular),
            (globalCellIndex cellIndexMap (i - 1) j k, Rectangular),
            (globalCellIndex cellIndexMap i j (k + 1), Rectangular),
            (globalCellIndex cellIndexMap i j (k - 1), Rectangular),
            (globalCellIndex cellIndexMap (i + 1) j (k + 1), Diagonal),
            (globalCellIndex cellIndexMap (i - 1) j (k + 1), Diagonal),
            (globalCellIndex cellIndexMap (i + 1) j (k - 1), Diagonal),
            (globalCellIndex cellIndexMap (i - 1) j (k - 1), Diagonal)] s)"

definition addNeighbours_Z :: "GridDims \<Rightarrow> PAvgCalculator \<times> SetupMap \<Rightarrow> PAvgCalculator \<times> SetupMap" where
  "addNeighbours_Z cellIndexMap s =
     (let (i, j, k) = getIJK cellIndexMap (lastConnsCell (fst s))
      in fold (\<lambda>(neighbour, kind). addNeighbour neighbour kind)
           [(globalCellIndex cellIndexMap (i + 1) j k, Rectangular),
            (globalCellIndex cellIndexMap (i - 1) j k, Rectangular),
            (globalCellIndex cellIndexMap i (j + 1) k, Rectangular),
            (globalCellIndex cellIndexMap i (j - 1) k, Rectangular),
            (globalCellIndex cellIndexMap (i + 1) (j + 1) k, Diagonal),
            (globalCellIndex cellIndexMap (i - 1) (j + 1) k, Diagonal),
            (globalCellIndex cellIndexMap (i + 1) (j - 1) k, Diagonal),
            (globalCellIndex cellIndexMap (i - 1) (j - 1) k, Diagonal)] s)"

definition addConnection ::
  "GridDims \<Rightarrow> Connection \<Rightarrow> PAvgCalculator \<times> SetupMap \<Rightarrow> PAvgCalculator \<times> SetupMap" where
  "addConnection cellIndexMap conn s =
     (let this = fst s;
          (localCellPos, newCellInserted, setupHelperMap) =
             emplace (global_index conn) (length (contributingCells this)) (snd s);
          this = (if newCellInserted
                  then this\<lparr>contributingCells := contributingCells this @ [fst localCellPos]\<rparr>
                  else this);
          this = (if state conn = OPEN
                  then this\<lparr>openConns := openConns this @ [length (connections this)]\<rparr>
                  else this);
          this = this\<lparr>connections := connections this @
                   [\<lparr>ctf = CF conn, depth = conn_depth conn, cell = snd localCellPos,
                     rectNeighbours = [], diagNeighbours = []\<rparr>]\<rparr>
      in if dir conn = DirX then addNeighbours_X cellIndexMap (this, setupHelperMap)
         else if dir conn = DirY then addNeighbours_Y cellIndexMap (this, setupHelperMap)
         else if dir conn = DirZ then addNeighbours_Z cellIndexMap (this, setupHelperMap)
         else (this, setupHelperMap))"

text \<open>The constructor; the helper map lives only while it runs.\<close>

definition PAvgCalculator_new :: "GridDims \<Rightarrow> Connection list \<Rightarrow> PAvgCalculator" where
  "PAvgCalculator_new cellIndexMap conns =
     fst (fold (addConnection cellIndexMap) conns (PAvgCalculator_empty, Map.empty))"

subsection \<open>Pruning inactive cells\<close>

text \<open>
  The \<^verbatim>\<open>assert\<close> on the mask's length is the first branch; where assertions are
  compiled out, a mask of another length is read out of range. \<open>newIndex\<close> keeps the
  zeros the source leaves at the inactive cells, and the cell of a connection is renumbered
  without a look at the mask, as the source does under its comment "Known to be active".
\<close>

definition pruneInactiveWBPCells :: "bool list \<Rightarrow> PAvgCalculator \<Rightarrow> error + PAvgCalculator" where
  "pruneInactiveWBPCells isActive this =
     (if length isActive \<noteq> length (contributingCells this) then Inl assertion_failure
      else
        let allIx = [0..<length isActive];
            activeIx = filter (\<lambda>i. isActive ! i) allIx
        in if length activeIx = length allIx then Inr this
           else
             let newWBPCells = map (\<lambda>origCell. contributingCells this ! origCell) activeIx;
                 newIndex = fold (\<lambda>i ix. ix[activeIx ! i := i]) [0..<length activeIx]
                              (replicate (length allIx) 0);
                 newNeighbour = (\<lambda>neighbours.
                    map (\<lambda>neighbour. newIndex ! neighbour)
                        (filter (\<lambda>neighbour. isActive ! neighbour) neighbours))
             in Inr (this\<lparr>contributingCells := newWBPCells,
                          connections := map (\<lambda>conn.
                             conn\<lparr>cell := newIndex ! cell conn,
                                  rectNeighbours := newNeighbour (rectNeighbours conn),
                                  diagNeighbours := newNeighbour (diagNeighbours conn)\<rparr>)
                             (connections this)\<rparr>))"

subsection \<open>Pressure offsets\<close>

definition connectionPressureOffsetWell ::
  "nat \<Rightarrow> Sources \<Rightarrow> double \<Rightarrow> double \<Rightarrow> (nat \<Rightarrow> nat) \<Rightarrow> PAvgCalculator \<Rightarrow> double list" where
  "connectionPressureOffsetWell nconn sources gravity refDepth connIndex this =
     fold (\<lambda>connID dp.
             let connIx = connIndex connID;
                 conn = connections this ! connIx
             in dp[connID := pressureOffset (MixtureDensity (wellConns sources connIx))
                               (depth conn) gravity refDepth])
          [0..<nconn] (replicate nconn (Fin 0))"

definition includeDensity ::
  "Sources \<Rightarrow> PAvgCalculator \<Rightarrow> nat \<Rightarrow> WeightedRunningAverage \<Rightarrow> WeightedRunningAverage" where
  "includeDensity sources this i density =
     (let src = wellBlocks sources (contributingCells this ! i)
      in WRA_add (MixtureDensity src) (PoreVol src) density)"

text \<open>The loop's state is the running density average and the offsets.\<close>

definition connectionPressureOffsetRes ::
  "nat \<Rightarrow> Sources \<Rightarrow> double \<Rightarrow> double \<Rightarrow> (nat \<Rightarrow> nat) \<Rightarrow> PAvgCalculator \<Rightarrow> double list" where
  "connectionPressureOffsetRes nconn sources gravity refDepth connIndex this =
     snd (fold (\<lambda>connID (density, dp).
             let density = WRA_clear density;
                 conn = connections this ! connIndex connID;
                 density = includeDensity sources this (cell conn) density;
                 density = fold (\<lambda>neighbours d. fold (includeDensity sources this) (neighbours conn) d)
                             [rectNeighbours, diagNeighbours] density
             in (density, dp[connID := pressureOffset (value_of density) (depth conn) gravity refDepth]))
          [0..<nconn] (WRA_zero, replicate nconn (Fin 0)))"

definition connectionPressureOffset ::
  "Sources \<Rightarrow> PAvg \<Rightarrow> double \<Rightarrow> double \<Rightarrow> PAvgCalculator \<Rightarrow> error + double list" where
  "connectionPressureOffset sources controls gravity refDepth this =
     (let nconn = (if open_connections controls then length (openConns this)
                   else length (connections this))
      in if depth_correction controls = NONE \<or> \<not> isnormal gravity
         then Inr (replicate nconn (Fin 0))
         else if depth_correction controls = RES
         then (if \<not> open_connections controls
               then Inr (connectionPressureOffsetRes nconn sources gravity refDepth (\<lambda>i. i) this)
               else Inr (connectionPressureOffsetRes nconn sources gravity refDepth
                           (\<lambda>i. openConns this ! i) this))
         else if depth_correction controls \<noteq> WELL
         then Inl (invalid_argument (depth_correction controls))
         else if \<not> open_connections controls
         then Inr (connectionPressureOffsetWell nconn sources gravity refDepth (\<lambda>i. i) this)
         else Inr (connectionPressureOffsetWell nconn sources gravity refDepth
                     (\<lambda>i. openConns this ! i) this))"

subsection \<open>Accumulating the local contributions\<close>

type_synonym PressureTermHandler = "double \<Rightarrow> double \<Rightarrow> Accumulator \<Rightarrow> Accumulator"

text \<open>
  The closure \<^verbatim>\<open>addContrib\<close>. It writes to the per-connection accumulator
  \<^verbatim>\<open>accumCTF_c\<close> and to the member \<^verbatim>\<open>accumPV_\<close>, so the state is the calculator
  together with \<^verbatim>\<open>accumCTF_c\<close>.
\<close>

definition addContrib ::
  "Sources \<Rightarrow> (SourceDataSpan \<Rightarrow> double) \<Rightarrow> nat \<Rightarrow> double \<Rightarrow> PressureTermHandler
     \<Rightarrow> PAvgCalculator \<times> Accumulator \<Rightarrow> PAvgCalculator \<times> Accumulator" where
  "addContrib sources ctfPressWeight i dp handler s =
     (let this = fst s;
          accumCTF_c = snd s;
          src = wellBlocks sources (contributingCells this ! i);
          p = dadd (Pressure src) dp;
          accumCTF_c = handler (ctfPressWeight src) p accumCTF_c;
          this = this\<lparr>accumPV := handler (PoreVol src) p (accumPV this)\<rparr>
      in (this, accumCTF_c))"

text \<open>One iteration of the loop over the connections.\<close>

definition accumulateConnection ::
  "Sources \<Rightarrow> PAvg \<Rightarrow> double list \<Rightarrow> (nat \<Rightarrow> nat) \<Rightarrow> (SourceDataSpan \<Rightarrow> double) \<Rightarrow> nat
     \<Rightarrow> PAvgCalculator \<times> Accumulator \<Rightarrow> PAvgCalculator \<times> Accumulator" where
  "accumulateConnection sources controls connDP connIndex ctfPressWeight connID s =
     (let this = fst s;
          accumCTF_c = prepareContribution (prepareAccumulation (snd s));
          conn = connections this ! connIndex connID;
          s = addContrib sources ctfPressWeight (cell conn) (connDP ! connID) addCentre
                (this, accumCTF_c);
          s = fold (\<lambda>(neighbours, handler) s.
                      fold (\<lambda>neighIdx. addContrib sources ctfPressWeight neighIdx
                                          (connDP ! connID) handler)
                           (neighbours conn) s)
                [(rectNeighbours, addRectangular), (diagNeighbours, addDiagonal)] s;
          this = fst s;
          accumCTF_c = commitContribution (inner_weight controls) (snd s);
          this = this\<lparr>accumCTF := Accumulator_add (ctf conn) accumCTF_c (accumCTF this)\<rparr>
      in (this, accumCTF_c))"

text \<open>
  The overload with a connection index map and a weight function for the CTF-based sum.
  The last statement calls \<^verbatim>\<open>commitContribution()\<close> without an argument; the default
  argument is declared in the header, which is not among the sources read here, and is the
  parameter \<open>defaultInnerWeight\<close>.
\<close>

definition accumulateLocalContributions_weighted ::
  "double \<Rightarrow> Sources \<Rightarrow> PAvg \<Rightarrow> double list \<Rightarrow> (nat \<Rightarrow> nat) \<Rightarrow> (SourceDataSpan \<Rightarrow> double)
     \<Rightarrow> PAvgCalculator \<Rightarrow> PAvgCalculator" where
  "accumulateLocalContributions_weighted defaultInnerWeight sources controls connDP connIndex
       ctfPressWeight this =
     (let this = this\<lparr>accumCTF := prepareContribution (accumCTF this)\<rparr>;
          this = this\<lparr>accumPV := prepareContribution (accumPV this)\<rparr>;
          accumCTF_c = Accumulator_new;
          nconn = length connDP;
          s = fold (accumulateConnection sources controls connDP connIndex ctfPressWeight)
                [0..<nconn] (this, accumCTF_c);
          this = fst s
      in this\<lparr>accumPV := commitContribution defaultInnerWeight (accumPV this)\<rparr>)"

text \<open>The overload that selects the weight function from the sign of F1.\<close>

definition accumulateLocalContributions_indexed ::
  "double \<Rightarrow> Sources \<Rightarrow> PAvg \<Rightarrow> double list \<Rightarrow> (nat \<Rightarrow> nat) \<Rightarrow> PAvgCalculator \<Rightarrow> PAvgCalculator" where
  "accumulateLocalContributions_indexed defaultInnerWeight sources controls connDP connIndex this =
     (if dless (inner_weight controls) (Fin 0)
      then accumulateLocalContributions_weighted defaultInnerWeight sources controls connDP
             connIndex PoreVol this
      else accumulateLocalContributions_weighted defaultInnerWeight sources controls connDP
             connIndex (\<lambda>src. Fin 1) this)"

definition accumulateLocalContribOpen ::
  "double \<Rightarrow> Sources \<Rightarrow> PAvg \<Rightarrow> double list \<Rightarrow> PAvgCalculator \<Rightarrow> error + PAvgCalculator" where
  "accumulateLocalContribOpen defaultInnerWeight sources controls connDP this =
     (if length connDP \<noteq> length (openConns this) then Inl assertion_failure
      else Inr (accumulateLocalContributions_indexed defaultInnerWeight sources controls connDP
                  (\<lambda>i. openConns this ! i) this))"

definition accumulateLocalContribAll ::
  "double \<Rightarrow> Sources \<Rightarrow> PAvg \<Rightarrow> double list \<Rightarrow> PAvgCalculator \<Rightarrow> error + PAvgCalculator" where
  "accumulateLocalContribAll defaultInnerWeight sources controls connDP this =
     (if length connDP \<noteq> length (connections this) then Inl assertion_failure
      else Inr (accumulateLocalContributions_indexed defaultInnerWeight sources controls connDP
                  (\<lambda>i. i) this))"

definition accumulateLocalContributions ::
  "double \<Rightarrow> Sources \<Rightarrow> PAvg \<Rightarrow> double \<Rightarrow> double \<Rightarrow> PAvgCalculator \<Rightarrow> error + PAvgCalculator" where
  "accumulateLocalContributions defaultInnerWeight sources controls gravity refDepth this =
     (let this = this\<lparr>accumCTF := prepareAccumulation (accumCTF this)\<rparr>;
          this = this\<lparr>accumPV := prepareAccumulation (accumPV this)\<rparr>
      in case connectionPressureOffset sources controls gravity refDepth this of
           Inl e \<Rightarrow> Inl e
         | Inr connDP \<Rightarrow>
             if open_connections controls
             then accumulateLocalContribOpen defaultInnerWeight sources controls connDP this
             else accumulateLocalContribAll defaultInnerWeight sources controls connDP this)"

definition collectGlobalContributions :: "PAvgCalculator \<Rightarrow> PAvgCalculator" where
  "collectGlobalContributions this = this"

definition assignResults :: "PAvg \<Rightarrow> PAvgCalculator \<Rightarrow> PAvgCalculator" where
  "assignResults controls this =
     (let F2 = conn_weight controls
      in this\<lparr>averagePressures :=
           linearCombination F2 (getFinalResult (accumCTF this))
             (dsub (Fin 1) F2) (getFinalResult (accumPV this))\<rparr>)"

definition inferBlockAveragePressures ::
  "double \<Rightarrow> Sources \<Rightarrow> PAvg \<Rightarrow> double \<Rightarrow> double \<Rightarrow> PAvgCalculator \<Rightarrow> error + PAvgCalculator" where
  "inferBlockAveragePressures defaultInnerWeight sources controls gravity refDepth this =
     (case accumulateLocalContributions defaultInnerWeight sources controls gravity refDepth this of
        Inl e \<Rightarrow> Inl e
      | Inr this \<Rightarrow> Inr (assignResults controls (collectGlobalContributions this)))"

section \<open>Notions of the specification\<close>

subsection \<open>Pooled sums\<close>

text \<open>
  The sum of three doubles as a cleared compensated summation accumulates it. The first
  two terms give \<open>a + b\<close>; the error term then holds \<open>b + (a - (a + b))\<close>, what the
  addition lost of \<open>b\<close>, and is added to the third term before that enters the sum.
\<close>

definition compensated_sum3 :: "double \<Rightarrow> double \<Rightarrow> double \<Rightarrow> double" where
  "compensated_sum3 a b c = dadd (dadd a b) (dadd (dadd b (dsub a (dadd a b))) c)"

subsection \<open>Valid local indices\<close>

text \<open>
  A connection is well formed for \<open>n\<close> contributing cells when its cell index and all its
  rectangular and diagonal neighbour indices are below \<open>n\<close>.
\<close>

definition conn_ok :: "nat \<Rightarrow> PAvgConnection \<Rightarrow> bool" where
  "conn_ok n conn =
     (cell conn < n \<and> list_all (\<lambda>i. i < n) (rectNeighbours conn)
      \<and> list_all (\<lambda>i. i < n) (diagNeighbours conn))"

definition valid_indices :: "PAvgCalculator \<Rightarrow> bool" where
  "valid_indices this = list_all (conn_ok (length (contributingCells this))) (connections this)"

text \<open>
  While the constructor runs, the helper map in addition sends every cell to a valid local
  index.
\<close>

definition setup_invariant :: "PAvgCalculator \<times> SetupMap \<Rightarrow> bool" where
  "setup_invariant s =
     (valid_indices (fst s) \<and> (\<forall>v \<in> ran (snd s). v < length (contributingCells (fst s))))"

subsection \<open>The contribution of one connection to one accumulator\<close>

text \<open>
  One pressure sample, weighted by a function of the cell's source data, fed to a term of
  an accumulator.
\<close>

definition addSample ::
  "(SourceDataSpan \<Rightarrow> double) \<Rightarrow> Sources \<Rightarrow> size_t list \<Rightarrow> double \<Rightarrow> PressureTermHandler
     \<Rightarrow> nat \<Rightarrow> Accumulator \<Rightarrow> Accumulator" where
  "addSample weight sources cells dp handler i acc =
     (let src = wellBlocks sources (cells ! i)
      in handler (weight src) (dadd (Pressure src) dp) acc)"

text \<open>
  All samples of a connection: its cell as the centre term, then its rectangular and its
  diagonal neighbours.
\<close>

definition feedConnection ::
  "(SourceDataSpan \<Rightarrow> double) \<Rightarrow> Sources \<Rightarrow> size_t list \<Rightarrow> double \<Rightarrow> PAvgConnection
     \<Rightarrow> Accumulator \<Rightarrow> Accumulator" where
  "feedConnection weight sources cells dp conn acc =
     fold (addSample weight sources cells dp addDiagonal) (diagNeighbours conn)
       (fold (addSample weight sources cells dp addRectangular) (rectNeighbours conn)
          (addSample weight sources cells dp addCentre (cell conn) acc))"

text \<open>
  The committed per-connection accumulator of the CTF-based sum: a fresh accumulator fed
  with the connection's samples and committed with the inner weight F1.
\<close>

definition connectionContribution ::
  "Sources \<Rightarrow> PAvg \<Rightarrow> double list \<Rightarrow> (nat \<Rightarrow> nat) \<Rightarrow> (SourceDataSpan \<Rightarrow> double)
     \<Rightarrow> PAvgCalculator \<Rightarrow> nat \<Rightarrow> Accumulator" where
  "connectionContribution sources controls connDP connIndex weight this connID =
     commitContribution (inner_weight controls)
       (feedConnection weight sources (contributingCells this) (connDP ! connID)
          (connections this ! connIndex connID) Accumulator_new)"

text \<open>
  The pore-volume-based accumulator as the specification describes it: every connection has
  a committed accumulator of its own, which is folded into the outer accumulator by
  \<^verbatim>\<open>add(weight, other)\<close> with the pore volume of the connection's cell as weight.
\<close>

definition accumPV_as_specified ::
  "double \<Rightarrow> Sources \<Rightarrow> double list \<Rightarrow> (nat \<Rightarrow> nat) \<Rightarrow> PAvgCalculator \<Rightarrow> Accumulator" where
  "accumPV_as_specified innerWeight sources connDP connIndex this =
     fold (\<lambda>connID acc.
             let conn = connections this ! connIndex connID;
                 poreVolume = PoreVol (wellBlocks sources (contributingCells this ! cell conn));
                 other = commitContribution innerWeight
                           (feedConnection PoreVol sources (contributingCells this)
                              (connDP ! connID) conn Accumulator_new)
             in Accumulator_add poreVolume other acc)
          [0..<length connDP] (prepareContribution (accumPV this))"

section \<open>Two concrete wells\<close>

text \<open>
  The scenario of the specification: a grid of two cells in a row, a vertical connection
  with CTF 2 in the first cell, whose only neighbour is the second cell; pressures 100 and
  90, pore volumes 10 and 5, F1 = 0.5, F2 = 1, no depth correction.
\<close>

definition pair_grid :: GridDims where
  "pair_grid = \<lparr>getNX = 2, getNY = 1, getNZ = 1,
      getGlobalIndex = (\<lambda>i j k. Some i), getIJK = (\<lambda>g. (g, 0, 0))\<rparr>"

definition pair_connections :: "Connection list" where
  "pair_connections =
     [\<lparr>global_index = 0, state = OPEN, CF = Fin 2, conn_depth = Fin 10, dir = DirZ\<rparr>]"

definition pair_sources :: Sources where
  "pair_sources =
     \<lparr>wellBlocks = (\<lambda>g. if g = 0
          then \<lparr>Pressure = Fin 100, PoreVol = Fin 10, MixtureDensity = Fin 1000\<rparr>
          else \<lparr>Pressure = Fin 90, PoreVol = Fin 5, MixtureDensity = Fin 1000\<rparr>),
      wellConns = (\<lambda>c. \<lparr>Pressure = Fin 0, PoreVol = Fin 0, MixtureDensity = Fin 1000\<rparr>)\<rparr>"

definition pair_controls :: PAvg where
  "pair_controls = \<lparr>open_connections = False, inner_weight = Fin (1 / 2),
      conn_weight = Fin 1, depth_correction = NONE\<rparr>"

text \<open>
  A row of five cells, the middle one inactive, with vertical connections in the first and
  the fourth cell; each has one rectangular neighbour.
\<close>

definition row_grid :: GridDims where
  "row_grid = \<lparr>getNX = 5, getNY = 1, getNZ = 1,
      getGlobalIndex = (\<lambda>i j k. if i = 2 then None else Some i),
      getIJK = (\<lambda>g. (g, 0, 0))\<rparr>"

definition row_connections :: "Connection list" where
  "row_connections =
     [\<lparr>global_index = 0, state = OPEN, CF = Fin 2, conn_depth = Fin 10, dir = DirZ\<rparr>,
      \<lparr>global_index = 3, state = OPEN, CF = Fin 1, conn_depth = Fin 10, dir = DirZ\<rparr>]"

definition row_sources :: Sources where
  "row_sources =
     \<lparr>wellBlocks = (\<lambda>g.
          if g = 0 then \<lparr>Pressure = Fin 100, PoreVol = Fin 1, MixtureDensity = Fin 1000\<rparr>
          else if g = 1 then \<lparr>Pressure = Fin 200, PoreVol = Fin 3, MixtureDensity = Fin 1000\<rparr>
          else if g = 3 then \<lparr>Pressure = Fin 300, PoreVol = Fin 2, MixtureDensity = Fin 1000\<rparr>
          else \<lparr>Pressure = Fin 400, PoreVol = Fin 1, MixtureDensity = Fin 1000\<rparr>),
      wellConns = (\<lambda>c. \<lparr>Pressure = Fin 0, PoreVol = Fin 0, MixtureDensity = Fin 1000\<rparr>)\<rparr>"

definition row_controls :: PAvg where
  "row_controls = \<lparr>open_connections = False, inner_weight = Fin (1 / 2),
      conn_weight = Fin 1, depth_correction = NONE\<rparr>"

text \<open>The calculators the constructor builds for the two wells.\<close>

definition pair_calculator :: PAvgCalculator where
  "pair_calculator =
     \<lparr>contributingCells = [0, 1],
      connections = [\<lparr>ctf = Fin 2, depth = Fin 10, cell = 0,
                       rectNeighbours = [1], diagNeighbours = []\<rparr>],
      openConns = [0],
      accumCTF = Accumulator_new, accumPV = Accumulator_new, averagePressures = Result_new\<rparr>"

definition row_calculator :: PAvgCalculator where
  "row_calculator =
     \<lparr>contributingCells = [0, 1, 3, 4],
      connections = [\<lparr>ctf = Fin 2, depth = Fin 10, cell = 0,
                       rectNeighbours = [1], diagNeighbours = []\<rparr>,
                     \<lparr>ctf = Fin 1, depth = Fin 10, cell = 2,
                       rectNeighbours = [3], diagNeighbours = []\<rparr>],
      openConns = [0, 1],
      accumCTF = Accumulator_new, accumPV = Accumulator_new, averagePressures = Result_new\<rparr>"

section \<open>Properties\<close>

subsection \<open>Auxiliary facts\<close>

lemma upt_0_4: "[0..<4] = [0, 1, 2, 3]"
  by (simp add: upt_conv_Cons)

lemma ddiv_zero_not_finite: "\<not> isfinite (ddiv x (Fin 0))"
  by (cases x) (simp_all add: inf_of_sign_def)

lemma WRA_clear_zero: "WRA_clear a = WRA_zero"
  by (simp add: WRA_clear_def WRA_zero_def RCS_clear_def RCS_zero_def)

lemma DBL_OVERFLOW_large: "2 ^ 100 < DBL_OVERFLOW"
  by (simp add: DBL_OVERFLOW_def)

lemma finite_result_in_range: "\<bar>r\<bar> < DBL_OVERFLOW \<Longrightarrow> finite_result r = Fin r"
  by (simp add: finite_result_def)

lemma finite_result_small: "\<bar>r\<bar> \<le> 2 ^ 100 \<Longrightarrow> finite_result r = Fin r"
  using DBL_OVERFLOW_large by (simp add: finite_result_def)

lemma finite_result_0: "finite_result 0 = Fin 0"
  by (simp add: finite_result_small)


lemma dadd_zero_left: "finite_double x \<Longrightarrow> dadd (Fin 0) x = x"
  by (cases x) (simp_all add: finite_result_in_range)

lemma dadd_cancel: "finite_double x \<Longrightarrow> dadd x (dsub (Fin 0) x) = Fin 0"
  by (cases x) (simp_all add: dsub_def finite_result_in_range finite_result_0)



lemma RCS_add_cleared:
  "finite_double x \<Longrightarrow> RCS_add x RCS_zero = \<lparr>rcs_value = x, rcs_err = Fin 0\<rparr>"
  by (simp add: RCS_add_def RCS_zero_def Let_def dadd_zero_left dadd_cancel)

lemma RCS_add_second:
  "finite_double y \<Longrightarrow>
   RCS_add y \<lparr>rcs_value = x, rcs_err = Fin 0\<rparr>
     = \<lparr>rcs_value = dadd x y, rcs_err = dadd y (dsub x (dadd x y))\<rparr>"
  by (simp add: RCS_add_def Let_def dadd_zero_left)

lemma RCS_add_value: "rcs_value (RCS_add z \<lparr>rcs_value = v, rcs_err = e\<rparr>) = dadd v (dadd e z)"
  by (simp add: RCS_add_def Let_def)

lemmas double_ops = dsub_def inf_of_sign_def DBL_MIN_def finite_result_small

lemmas summation_defs = RCS_zero_def RCS_add_def RCS_add_sum_def RCS_mul_def RCS_clear_def
  WRA_zero_def WRA_clear_def WRA_add_def WRA_add_avg_def WRA_mul_def WRA_combine_def
  sum_of_def weight_of_def value_of_def set_mutableSum_def set_mutableWeight_def Let_def

lemmas accumulator_defs = Accumulator_new_def addCentre_def addRectangular_def addDiagonal_def
  Accumulator_add_def prepareAccumulation_def prepareContribution_def combineDirect_def
  combineWeighted_def commitContribution_def clear3_def clear4_def getAverageValue_def
  getFinalResult_def Result_new_def Result_set_def Result_value_def upt_0_4

subsection \<open>The value of a weighted running average\<close>

text \<open>
  C5. \<^verbatim>\<open>value()\<close> is the quotient of sum and weight when the absolute value of the weight
  is greater than zero. When the weight is zero it is exactly 0, and not the quotient, which
  a division by zero makes infinite or NaN.
\<close>

theorem value_of_guarded:
  "(dless (Fin 0) (dabs (weight_of a)) \<longrightarrow> value_of a = ddiv (sum_of a) (weight_of a))
   \<and> (weight_of a = Fin 0 \<longrightarrow>
        value_of a = Fin 0 \<and> \<not> isfinite (ddiv (sum_of a) (weight_of a)))"
proof (intro conjI impI)
  assume "dless (Fin 0) (dabs (weight_of a))"
  then show "value_of a = ddiv (sum_of a) (weight_of a)"
    by (simp add: value_of_def Let_def)
next
  assume w: "weight_of a = Fin 0"
  then show "value_of a = Fin 0"
    by (simp add: value_of_def Let_def)
  from w show "\<not> isfinite (ddiv (sum_of a) (weight_of a))"
    by (simp add: ddiv_zero_not_finite)
qed

theorem value_of_guarded_witness:
  "dless (Fin 0) (dabs (weight_of (WRA_add (Fin 90) (Fin 3) WRA_zero)))
   \<and> value_of (WRA_add (Fin 90) (Fin 3) WRA_zero) = Fin 90
   \<and> weight_of WRA_zero = Fin 0
   \<and> value_of WRA_zero = Fin 0
   \<and> ddiv (sum_of WRA_zero) (weight_of WRA_zero) = NaN"
  using value_of_guarded [of "WRA_add (Fin 90) (Fin 3) WRA_zero"] value_of_guarded [of WRA_zero]
  by (simp add: summation_defs double_ops)

subsection \<open>Committing the terms of a connection\<close>

text \<open>
  C2. With a negative inner weight \<^verbatim>\<open>commitContribution\<close> merges the centre term into
  WBP, the rectangular term into WBP4, the centre and rectangular terms into WBP5 and the
  centre, rectangular and diagonal terms into WBP9, each with \<^verbatim>\<open>operator+=\<close> and no
  weighting, and any two negative inner weights give the same accumulator. In sums and
  weights: starting from cleared result averages, and for centre and rectangular terms with
  finite sums and weights, WBP holds the sum and weight of the centre term, WBP4 those of
  the rectangular term, WBP5 the sum of the two sums and the sum of the two weights, and
  WBP9 the compensated sum of the three sums and of the three weights. No inner weight
  occurs in them.
\<close>

theorem commitContribution_negative:
  assumes "dless w (Fin 0)" and "dless w' (Fin 0)"
  shows "commitContribution w this =
           this\<lparr>avg := Array4
             (WRA_combine (at3 (terms this) 0) (at4 (avg this) 0))
             (WRA_combine (at3 (terms this) 1) (at4 (avg this) 1))
             (WRA_combine (at3 (terms this) 1)
               (WRA_combine (at3 (terms this) 0) (at4 (avg this) 2)))
             (WRA_combine (at3 (terms this) 2)
               (WRA_combine (at3 (terms this) 1)
                 (WRA_combine (at3 (terms this) 0) (at4 (avg this) 3))))\<rparr>
         \<and> commitContribution w' this = commitContribution w this
         \<and> (finite_double (sum_of (at3 (terms this) 0))
              \<and> finite_double (weight_of (at3 (terms this) 0))
              \<and> finite_double (sum_of (at3 (terms this) 1))
              \<and> finite_double (weight_of (at3 (terms this) 1)) \<longrightarrow>
            getRunningAverages (commitContribution w (prepareAccumulation this)) =
              [sum_of (at3 (terms this) 0), weight_of (at3 (terms this) 0),
               sum_of (at3 (terms this) 1), weight_of (at3 (terms this) 1),
               dadd (sum_of (at3 (terms this) 0)) (sum_of (at3 (terms this) 1)),
               dadd (weight_of (at3 (terms this) 0)) (weight_of (at3 (terms this) 1)),
               compensated_sum3 (sum_of (at3 (terms this) 0)) (sum_of (at3 (terms this) 1))
                 (sum_of (at3 (terms this) 2)),
               compensated_sum3 (weight_of (at3 (terms this) 0))
                 (weight_of (at3 (terms this) 1)) (weight_of (at3 (terms this) 2))])"
proof (intro conjI impI)
  show direct: "commitContribution w this =
           this\<lparr>avg := Array4
             (WRA_combine (at3 (terms this) 0) (at4 (avg this) 0))
             (WRA_combine (at3 (terms this) 1) (at4 (avg this) 1))
             (WRA_combine (at3 (terms this) 1)
               (WRA_combine (at3 (terms this) 0) (at4 (avg this) 2)))
             (WRA_combine (at3 (terms this) 2)
               (WRA_combine (at3 (terms this) 1)
                 (WRA_combine (at3 (terms this) 0) (at4 (avg this) 3))))\<rparr>" for this
    using assms(1)
    by (cases "avg this"; cases "terms this")
       (simp add: commitContribution_def combineDirect_def Let_def)
  show "commitContribution w' this = commitContribution w this"
    using assms
    by (cases "avg this"; cases "terms this")
       (simp add: commitContribution_def combineDirect_def Let_def)
  assume fin: "finite_double (sum_of (at3 (terms this) 0))
      \<and> finite_double (weight_of (at3 (terms this) 0))
      \<and> finite_double (sum_of (at3 (terms this) 1))
      \<and> finite_double (weight_of (at3 (terms this) 1))"
  obtain t0 t1 t2 where t: "terms this = Array3 t0 t1 t2"
    by (cases "terms this")
  obtain a0 a1 a2 a3 where a: "avg this = Array4 a0 a1 a2 a3"
    by (cases "avg this")
  from fin t have f: "finite_double (rcs_value (wra_sum t0))"
      "finite_double (rcs_value (wra_weight t0))"
      "finite_double (rcs_value (wra_sum t1))" "finite_double (rcs_value (wra_weight t1))"
    by (simp_all add: sum_of_def weight_of_def)
  have one: "WRA_combine x WRA_zero =
      \<lparr>wra_sum = \<lparr>rcs_value = rcs_value (wra_sum x), rcs_err = Fin 0\<rparr>,
       wra_weight = \<lparr>rcs_value = rcs_value (wra_weight x), rcs_err = Fin 0\<rparr>\<rparr>"
    if "finite_double (rcs_value (wra_sum x))" and "finite_double (rcs_value (wra_weight x))"
    for x
    using that by (simp add: WRA_combine_def WRA_zero_def RCS_add_sum_def RCS_add_cleared)
  have two: "WRA_combine t1
       \<lparr>wra_sum = \<lparr>rcs_value = rcs_value (wra_sum t0), rcs_err = Fin 0\<rparr>,
        wra_weight = \<lparr>rcs_value = rcs_value (wra_weight t0), rcs_err = Fin 0\<rparr>\<rparr> =
      \<lparr>wra_sum = \<lparr>rcs_value = dadd (rcs_value (wra_sum t0)) (rcs_value (wra_sum t1)),
                  rcs_err = dadd (rcs_value (wra_sum t1))
                    (dsub (rcs_value (wra_sum t0))
                       (dadd (rcs_value (wra_sum t0)) (rcs_value (wra_sum t1))))\<rparr>,
       wra_weight = \<lparr>rcs_value = dadd (rcs_value (wra_weight t0)) (rcs_value (wra_weight t1)),
                  rcs_err = dadd (rcs_value (wra_weight t1))
                    (dsub (rcs_value (wra_weight t0))
                       (dadd (rcs_value (wra_weight t0)) (rcs_value (wra_weight t1))))\<rparr>\<rparr>"
    using f by (simp add: WRA_combine_def RCS_add_sum_def RCS_add_second)
  have cleared: "prepareAccumulation this
      = \<lparr>avg = Array4 WRA_zero WRA_zero WRA_zero WRA_zero, terms = Array3 t0 t1 t2\<rparr>"
    by (simp add: prepareAccumulation_def clear4_def a t WRA_clear_zero)
  show "getRunningAverages (commitContribution w (prepareAccumulation this)) =
      [sum_of (at3 (terms this) 0), weight_of (at3 (terms this) 0),
       sum_of (at3 (terms this) 1), weight_of (at3 (terms this) 1),
       dadd (sum_of (at3 (terms this) 0)) (sum_of (at3 (terms this) 1)),
       dadd (weight_of (at3 (terms this) 0)) (weight_of (at3 (terms this) 1)),
       compensated_sum3 (sum_of (at3 (terms this) 0)) (sum_of (at3 (terms this) 1))
         (sum_of (at3 (terms this) 2)),
       compensated_sum3 (weight_of (at3 (terms this) 0))
         (weight_of (at3 (terms this) 1)) (weight_of (at3 (terms this) 2))]"
    unfolding direct cleared
    using f
    by (simp add: getRunningAverages_def t one two sum_of_def weight_of_def compensated_sum3_def)
       (simp add: WRA_combine_def RCS_add_sum_def RCS_add_value)
qed

theorem commitContribution_negative_witness:
  "dless (Fin (- 1)) (Fin 0) \<and> dless (Fin (- 5 / 2)) (Fin 0)
   \<and> commitContribution (Fin (- 5 / 2))
        (addRectangular (Fin 5) (Fin 90) (addCentre (Fin 10) (Fin 100) Accumulator_new))
     = commitContribution (Fin (- 1))
        (addRectangular (Fin 5) (Fin 90) (addCentre (Fin 10) (Fin 100) Accumulator_new))
   \<and> finite_double (sum_of (at3 (terms
        (addRectangular (Fin 5) (Fin 90) (addCentre (Fin 10) (Fin 100) Accumulator_new))) 0))
   \<and> finite_double (weight_of (at3 (terms
        (addRectangular (Fin 5) (Fin 90) (addCentre (Fin 10) (Fin 100) Accumulator_new))) 0))
   \<and> finite_double (sum_of (at3 (terms
        (addRectangular (Fin 5) (Fin 90) (addCentre (Fin 10) (Fin 100) Accumulator_new))) 1))
   \<and> finite_double (weight_of (at3 (terms
        (addRectangular (Fin 5) (Fin 90) (addCentre (Fin 10) (Fin 100) Accumulator_new))) 1))
   \<and> getRunningAverages (commitContribution (Fin (- 1)) (prepareAccumulation
        (addRectangular (Fin 5) (Fin 90) (addCentre (Fin 10) (Fin 100) Accumulator_new))))
     = [Fin 1000, Fin 10, Fin 450, Fin 5, Fin 1450, Fin 15, Fin 1450, Fin 15]"
proof -
  let ?acc = "addRectangular (Fin 5) (Fin 90) (addCentre (Fin 10) (Fin 100) Accumulator_new)"
  have terms: "terms ?acc = Array3
      \<lparr>wra_sum = \<lparr>rcs_value = Fin 1000, rcs_err = Fin 0\<rparr>,
        wra_weight = \<lparr>rcs_value = Fin 10, rcs_err = Fin 0\<rparr>\<rparr>
      \<lparr>wra_sum = \<lparr>rcs_value = Fin 450, rcs_err = Fin 0\<rparr>,
        wra_weight = \<lparr>rcs_value = Fin 5, rcs_err = Fin 0\<rparr>\<rparr>
      WRA_zero"
    by (simp add: accumulator_defs summation_defs double_ops)
  have small: "finite_double (Fin 1000)" "finite_double (Fin 10)" "finite_double (Fin 450)"
      "finite_double (Fin 5)"
    using DBL_OVERFLOW_large by simp_all
  have neg: "dless (Fin (- 1)) (Fin 0)" "dless (Fin (- 5 / 2)) (Fin 0)"
    by simp_all
  from commitContribution_negative [OF neg, of ?acc] small
  show ?thesis
    unfolding terms
    by (simp add: sum_of_def weight_of_def compensated_sum3_def WRA_zero_def RCS_zero_def
        dsub_def finite_result_small)
qed



subsection \<open>Exporting and re-importing the running averages\<close>

text \<open>
  C10. Assigning the buffer that \<^verbatim>\<open>getRunningAverages\<close> extracted from an accumulator
  gives every result average of the receiving accumulator the extracted sum and weight, so
  that its final result is the final result of the accumulator the buffer came from; assigned
  back to that accumulator itself, the buffer leaves it as it was.
\<close>

theorem running_averages_roundtrip:
  "map4 sum_of (avg (assignRunningAverages (getRunningAverages a) b)) = map4 sum_of (avg a)
   \<and> map4 weight_of (avg (assignRunningAverages (getRunningAverages a) b))
       = map4 weight_of (avg a)
   \<and> getFinalResult (assignRunningAverages (getRunningAverages a) b) = getFinalResult a
   \<and> assignRunningAverages (getRunningAverages a) a = a"
  by (cases "avg a"; cases "avg b")
     (simp add: assignRunningAverages_def getRunningAverages_def set_mutableSum_def
        set_mutableWeight_def sum_of_def weight_of_def upt_0_4 getFinalResult_def
        getAverageValue_def value_of_def Let_def)

subsection \<open>Evaluation on explicit records\<close>

text \<open>
  The operations applied to records written out field by field; with these equations the
  simplifier evaluates the calculator on concrete data.
\<close>

lemma RCS_add_Fin:
  "RCS_add (Fin x) \<lparr>rcs_value = Fin t, rcs_err = Fin e\<rparr>
     = \<lparr>rcs_value = dadd (Fin t) (finite_result (e + x)),
        rcs_err = dadd (finite_result (e + x))
                    (dsub (Fin t) (dadd (Fin t) (finite_result (e + x))))\<rparr>"
  by (simp add: RCS_add_def Let_def)

lemma WRA_add_record:
  "WRA_add x w \<lparr>wra_sum = s, wra_weight = ww\<rparr>
     = \<lparr>wra_sum = RCS_add (dmul w x) s, wra_weight = RCS_add w ww\<rparr>"
  by (simp add: WRA_add_def)

lemma WRA_combine_record:
  "WRA_combine \<lparr>wra_sum = s', wra_weight = w'\<rparr> \<lparr>wra_sum = s, wra_weight = w\<rparr>
     = \<lparr>wra_sum = RCS_add (rcs_value s') s, wra_weight = RCS_add (rcs_value w') w\<rparr>"
  by (simp add: WRA_combine_def RCS_add_sum_def)

lemma value_of_Fin:
  "value_of \<lparr>wra_sum = \<lparr>rcs_value = Fin s, rcs_err = e\<rparr>,
             wra_weight = \<lparr>rcs_value = Fin w, rcs_err = e'\<rparr>\<rparr>
     = (if w = 0 then Fin 0 else finite_result (s / w))"
  by (simp add: value_of_def weight_of_def sum_of_def Let_def)

lemma addCentre_record:
  "addCentre w p \<lparr>avg = a, terms = Array3 t0 t1 t2\<rparr>
     = \<lparr>avg = a, terms = Array3 (WRA_add p w t0) t1 t2\<rparr>"
  by (simp add: addCentre_def)

lemma addRectangular_record:
  "addRectangular w p \<lparr>avg = a, terms = Array3 t0 t1 t2\<rparr>
     = \<lparr>avg = a, terms = Array3 t0 (WRA_add p w t1) t2\<rparr>"
  by (simp add: addRectangular_def)

lemma addDiagonal_record:
  "addDiagonal w p \<lparr>avg = a, terms = Array3 t0 t1 t2\<rparr>
     = \<lparr>avg = a, terms = Array3 t0 t1 (WRA_add p w t2)\<rparr>"
  by (simp add: addDiagonal_def)

lemma commitContribution_record:
  "commitContribution w \<lparr>avg = Array4 a0 a1 a2 a3, terms = Array3 t0 t1 t2\<rparr>
     = \<lparr>avg = (if dless w (Fin 0)
               then Array4 (WRA_combine t0 a0) (WRA_combine t1 a1)
                      (WRA_combine t1 (WRA_combine t0 a2))
                      (WRA_combine t2 (WRA_combine t1 (WRA_combine t0 a3)))
               else Array4 (WRA_combine t0 a0) (WRA_combine t1 a1)
                      (WRA_add_avg t1 (dsub (Fin 1) w) (WRA_add_avg t0 w a2))
                      (WRA_add_avg (WRA_combine t2 t1) (dsub (Fin 1) w) (WRA_add_avg t0 w a3))),
        terms = Array3 t0 t1 t2\<rparr>"
  by (simp add: commitContribution_def combineDirect_def combineWeighted_def Let_def)

lemma Accumulator_add_record:
  "Accumulator_add w \<lparr>avg = Array4 b0 b1 b2 b3, terms = u\<rparr> \<lparr>avg = Array4 a0 a1 a2 a3, terms = t\<rparr>
     = \<lparr>avg = Array4 (WRA_add_avg b0 w a0) (WRA_add_avg b1 w a1)
                     (WRA_add_avg b2 w a2) (WRA_add_avg b3 w a3),
        terms = t\<rparr>"
  by (simp add: Accumulator_add_def upt_0_4)

lemma prepareContribution_record:
  "prepareContribution \<lparr>avg = a, terms = t\<rparr> = \<lparr>avg = a, terms = Array3 WRA_zero WRA_zero WRA_zero\<rparr>"
  by (cases t) (simp add: prepareContribution_def clear3_def WRA_clear_zero)

lemma prepareAccumulation_record:
  "prepareAccumulation \<lparr>avg = a, terms = t\<rparr>
     = \<lparr>avg = Array4 WRA_zero WRA_zero WRA_zero WRA_zero, terms = t\<rparr>"
  by (cases a) (simp add: prepareAccumulation_def clear4_def WRA_clear_zero)

lemma getAverageValue_record:
  "getAverageValue type \<lparr>avg = Array4 a0 a1 a2 a3, terms = t\<rparr>
     = value_of (case type of WBP \<Rightarrow> a0 | WBP4 \<Rightarrow> a1 | WBP5 \<Rightarrow> a2 | WBP9 \<Rightarrow> a3)"
  by (cases type) (simp_all add: getAverageValue_def)

lemmas record_eval = RCS_add_Fin WRA_add_record WRA_combine_record value_of_Fin addCentre_record
  addRectangular_record addDiagonal_record commitContribution_record Accumulator_add_record
  prepareContribution_record prepareAccumulation_record getAverageValue_record
  WRA_add_avg_def WRA_zero_def RCS_zero_def Accumulator_new_def dsub_def finite_result_small
  addSample_def feedConnection_def connectionContribution_def

lemma upt_0_1: "[0..<1] = [0]"
  by simp

lemma upt_0_2: "[0..<2] = [0, 1]"
  by (simp add: upt_conv_Cons)

subsection \<open>The two wells, as the constructor builds them\<close>

lemma uint_minus_one_size_t: "uint (- 1 :: 64 word) = 18446744073709551615"
  by (simp add: unsigned_minus_1_eq_mask mask_eq_exp_minus_1)

lemmas topology_eval = PAvgCalculator_new_def PAvgCalculator_empty_def addConnection_def
  emplace_def addNeighbours_Z_def lastConnsCell_def globalCellIndex_def addNeighbour_def
  update_back_def Let_def word_le_def uint_minus_one_size_t

lemma pair_calculator_built: "PAvgCalculator_new pair_grid pair_connections = pair_calculator"
  by (simp add: topology_eval pair_grid_def pair_connections_def pair_calculator_def)

lemma row_calculator_built: "PAvgCalculator_new row_grid row_connections = row_calculator"
  by (simp add: topology_eval row_grid_def row_connections_def row_calculator_def)


subsection \<open>The loop over the connections, one accumulator at a time\<close>

text \<open>
  The closure \<^verbatim>\<open>addContrib\<close> feeds every sample to two accumulators at once. The
  following equations separate the two: what reaches \<^verbatim>\<open>accumPV_\<close> and what reaches
  the per-connection accumulator of the CTF-based sum.
\<close>



lemma prepare_fresh: "prepareContribution (prepareAccumulation c) = Accumulator_new"
  by (cases "avg c"; cases "terms c")
     (simp add: prepareContribution_def prepareAccumulation_def Accumulator_new_def
        clear3_def clear4_def WRA_clear_zero)

lemma addContrib_split:
  "addContrib sources w i dp h (this, c) =
     (this\<lparr>accumPV := addSample PoreVol sources (contributingCells this) dp h i (accumPV this)\<rparr>,
      addSample w sources (contributingCells this) dp h i c)"
  by (simp add: addContrib_def addSample_def Let_def)

lemma fold_addContrib_split:
  "fold (\<lambda>neighIdx. addContrib sources w neighIdx dp h) ns (this, c) =
     (this\<lparr>accumPV := fold (addSample PoreVol sources (contributingCells this) dp h) ns
                          (accumPV this)\<rparr>,
      fold (addSample w sources (contributingCells this) dp h) ns c)"
  by (induction ns arbitrary: this c) (simp_all add: addContrib_split)

lemma accumulateConnection_split:
  "accumulateConnection sources controls connDP connIndex w connID (this, c) =
     (this\<lparr>accumPV := feedConnection PoreVol sources (contributingCells this) (connDP ! connID)
                          (connections this ! connIndex connID) (accumPV this),
           accumCTF := Accumulator_add (ctf (connections this ! connIndex connID))
                          (connectionContribution sources controls connDP connIndex w this connID)
                          (accumCTF this)\<rparr>,
      connectionContribution sources controls connDP connIndex w this connID)"
  by (simp add: accumulateConnection_def Let_def prepare_fresh addContrib_split
        fold_addContrib_split feedConnection_def connectionContribution_def)

lemma connectionContribution_frame:
  "connectionContribution sources controls connDP connIndex w
       (this\<lparr>accumPV := p, accumCTF := q\<rparr>) connID
     = connectionContribution sources controls connDP connIndex w this connID"
  by (simp add: connectionContribution_def)

lemma fold_accumulateConnection_split:
  "fst (fold (accumulateConnection sources controls connDP connIndex w) ids (this, c)) =
     this\<lparr>accumPV := fold (\<lambda>connID. feedConnection PoreVol sources (contributingCells this)
                                 (connDP ! connID) (connections this ! connIndex connID))
                          ids (accumPV this),
          accumCTF := fold (\<lambda>connID. Accumulator_add (ctf (connections this ! connIndex connID))
                                 (connectionContribution sources controls connDP connIndex w
                                    this connID))
                          ids (accumCTF this)\<rparr>"
proof (induction ids arbitrary: this c)
  case Nil
  then show ?case by simp
next
  case (Cons connID ids)
  show ?case
    by (simp add: accumulateConnection_split Cons.IH connectionContribution_frame)
qed

lemma accumulateLocalContributions_weighted_split:
  "accumulateLocalContributions_weighted dflt sources controls connDP connIndex w this =
     this\<lparr>accumPV := commitContribution dflt
              (fold (\<lambda>connID. feedConnection PoreVol sources (contributingCells this)
                       (connDP ! connID) (connections this ! connIndex connID))
                 [0..<length connDP] (prepareContribution (accumPV this))),
          accumCTF := fold (\<lambda>connID. Accumulator_add (ctf (connections this ! connIndex connID))
                        (connectionContribution sources controls connDP connIndex w this connID))
                 [0..<length connDP] (prepareContribution (accumCTF this))\<rparr>"
  by (simp add: accumulateLocalContributions_weighted_def Let_def fold_accumulateConnection_split
        connectionContribution_def)


text \<open>
  C1, as the code has it. After the pass the CTF-based accumulator is the fold, over the
  processed connections, of \<^verbatim>\<open>add(ctf, other)\<close> with the connection's committed
  accumulator as \<open>other\<close> and the connection's CTF as weight. The pore-volume-based
  accumulator has no per-connection accumulator and is never the target of \<^verbatim>\<open>add\<close>:
  every sample of every connection enters its term averages weighted by the pore volume of
  the sampled cell, and the terms are committed once, after the last connection, with the
  default inner weight.
\<close>

theorem accumulateLocalContributions_folds:
  "accumCTF (accumulateLocalContributions_weighted dflt sources controls connDP connIndex w this)
     = fold (\<lambda>connID. Accumulator_add (ctf (connections this ! connIndex connID))
                (connectionContribution sources controls connDP connIndex w this connID))
         [0..<length connDP] (prepareContribution (accumCTF this))
   \<and> accumPV (accumulateLocalContributions_weighted dflt sources controls connDP connIndex w this)
     = commitContribution dflt
         (fold (\<lambda>connID. feedConnection PoreVol sources (contributingCells this)
                  (connDP ! connID) (connections this ! connIndex connID))
            [0..<length connDP] (prepareContribution (accumPV this)))"
  by (simp add: accumulateLocalContributions_weighted_split)


text \<open>
  C1, as the specification states it, fails for the pore-volume-based accumulator. For the
  row of five cells the code pools the two rectangular samples, 200 with pore volume 3 and
  400 with pore volume 1, into a WBP4 value of 250; folding per-connection accumulators
  with the pore volumes 1 and 2 of the connections' cells would give 1000/3.
\<close>

theorem accumPV_not_as_specified:
  "getAverageValue WBP4 (accumPV (accumulateLocalContributions_weighted (Fin (- 1)) row_sources
       row_controls [Fin 0, Fin 0] (\<lambda>i. i) (\<lambda>src. Fin 1) row_calculator))
   \<noteq> getAverageValue WBP4
       (accumPV_as_specified (Fin (- 1)) row_sources [Fin 0, Fin 0] (\<lambda>i. i) row_calculator)"
proof -
  have a: "getAverageValue WBP4 (accumPV (accumulateLocalContributions_weighted (Fin (- 1))
       row_sources row_controls [Fin 0, Fin 0] (\<lambda>i. i) (\<lambda>src. Fin 1) row_calculator))
     = Fin 250"
    by (simp add: accumulateLocalContributions_weighted_split row_calculator_def upt_0_2
        record_eval row_sources_def)
  have b: "getAverageValue WBP4
       (accumPV_as_specified (Fin (- 1)) row_sources [Fin 0, Fin 0] (\<lambda>i. i) row_calculator)
     = Fin (1000 / 3)"
    by (simp add: accumPV_as_specified_def row_calculator_def upt_0_2 record_eval
        row_sources_def Let_def)
  show ?thesis unfolding a b by simp
qed

subsection \<open>Pressure offsets\<close>



lemma DBL_MIN_not_le_zero [simp]: "\<not> DBL_MIN \<le> 0"
  by (simp add: DBL_MIN_def)

lemma fold_update_length:
  "length (fold (\<lambda>i ix. ix[f i := g i ix]) is ix) = length ix"
  by (induction "is" arbitrary: ix) simp_all

lemma connectionPressureOffsetWell_length:
  "length (connectionPressureOffsetWell nconn sources gravity refDepth connIndex this) = nconn"
  by (simp add: connectionPressureOffsetWell_def Let_def fold_update_length)

lemma fold_snd_update_length:
  "length (snd (fold (\<lambda>i (d, dp). (h i d, dp[i := g i d])) is s)) = length (snd s)"
  by (induction "is" arbitrary: s) (simp_all add: split_beta)

lemma connectionPressureOffsetRes_length:
  "length (connectionPressureOffsetRes nconn sources gravity refDepth connIndex this) = nconn"
proof -
  have "connectionPressureOffsetRes nconn sources gravity refDepth connIndex this =
      snd (fold (\<lambda>connID (density, dp).
             (fold (\<lambda>neighbours d. fold (includeDensity sources this)
                       (neighbours (connections this ! connIndex connID)) d)
                [rectNeighbours, diagNeighbours]
                (includeDensity sources this (cell (connections this ! connIndex connID))
                   (WRA_clear density)),
              dp[connID := pressureOffset
                 (value_of (fold (\<lambda>neighbours d. fold (includeDensity sources this)
                       (neighbours (connections this ! connIndex connID)) d)
                    [rectNeighbours, diagNeighbours]
                    (includeDensity sources this (cell (connections this ! connIndex connID))
                       (WRA_clear density))))
                 (depth (connections this ! connIndex connID)) gravity refDepth]))
          [0..<nconn] (WRA_zero, replicate nconn (Fin 0)))"
    by (simp add: connectionPressureOffsetRes_def Let_def)
  then show ?thesis
    by (simp only: fold_snd_update_length) simp
qed

lemma connectionPressureOffset_length:
  assumes "connectionPressureOffset sources controls gravity refDepth this = Inr dp"
  shows "length dp = (if open_connections controls then length (openConns this)
                      else length (connections this))"
  using assms
  by (auto simp add: connectionPressureOffset_def Let_def connectionPressureOffsetWell_length
        connectionPressureOffsetRes_length split: if_splits)


lemma connectionPressureOffset_recognised:
  "depth_correction controls \<in> {NONE, WELL, RES} \<Longrightarrow>
   \<exists>dp. connectionPressureOffset sources controls gravity refDepth this = Inr dp"
  by (auto simp add: connectionPressureOffset_def Let_def)

text \<open>
  C6. When the depth correction is NONE, or gravity is not a normal number, the offsets are
  zeros, one for each processed connection: the open connections if only those are
  processed, all connections otherwise. The result does not mention the source data, so no
  density is read. Gravity 0 is such a value.
\<close>

theorem connectionPressureOffset_zero:
  "(depth_correction controls = NONE \<or> \<not> isnormal gravity \<longrightarrow>
      connectionPressureOffset sources controls gravity refDepth this
        = Inr (replicate (if open_connections controls then length (openConns this)
                          else length (connections this)) (Fin 0)))
   \<and> connectionPressureOffset sources controls (Fin 0) refDepth this
        = Inr (replicate (if open_connections controls then length (openConns this)
                          else length (connections this)) (Fin 0))"
  by (simp add: connectionPressureOffset_def Let_def)

theorem connectionPressureOffset_zero_witness:
  "\<not> isnormal NaN
   \<and> connectionPressureOffset row_sources (row_controls\<lparr>depth_correction := RES\<rparr>) NaN (Fin 5)
        row_calculator = Inr [Fin 0, Fin 0]
   \<and> connectionPressureOffset row_sources (row_controls\<lparr>depth_correction := WELL\<rparr>) (Fin 0)
        (Fin 5) row_calculator = Inr [Fin 0, Fin 0]"
  using connectionPressureOffset_zero [where controls = "row_controls\<lparr>depth_correction := RES\<rparr>"
      and gravity = NaN and this = row_calculator and sources = row_sources
      and refDepth = "Fin 5"]
    connectionPressureOffset_zero [where controls = "row_controls\<lparr>depth_correction := WELL\<rparr>"
      and gravity = "Fin 0" and this = row_calculator and sources = row_sources
      and refDepth = "Fin 5"]
  by (simp add: row_controls_def row_calculator_def)

text \<open>
  C7. With a normal gravity, \<^verbatim>\<open>connectionPressureOffset\<close> raises exactly when the
  depth-correction mode is none of NONE, WELL and RES, and what it raises is the
  invalid-argument error that carries the mode. For NONE, WELL and RES it returns offsets,
  whatever the gravity.
\<close>

theorem connectionPressureOffset_unsupported:
  "(isnormal gravity \<longrightarrow>
      ((\<exists>e. connectionPressureOffset sources controls gravity refDepth this = Inl e)
         \<longleftrightarrow> depth_correction controls \<notin> {NONE, WELL, RES})
      \<and> (depth_correction controls \<notin> {NONE, WELL, RES} \<longrightarrow>
           connectionPressureOffset sources controls gravity refDepth this
             = Inl (invalid_argument (depth_correction controls))))
   \<and> (depth_correction controls \<in> {NONE, WELL, RES} \<longrightarrow>
        (\<exists>dp. connectionPressureOffset sources controls gravity refDepth this = Inr dp))"
  by (auto simp add: connectionPressureOffset_def Let_def)

theorem connectionPressureOffset_unsupported_witness:
  "isnormal (Fin 10)
   \<and> depth_correction (pair_controls\<lparr>depth_correction := Other 7\<rparr>) \<notin> {NONE, WELL, RES}
   \<and> connectionPressureOffset pair_sources (pair_controls\<lparr>depth_correction := Other 7\<rparr>)
        (Fin 10) (Fin 0) pair_calculator = Inl (invalid_argument (Other 7))
   \<and> connectionPressureOffset pair_sources (pair_controls\<lparr>depth_correction := WELL\<rparr>)
        (Fin 10) (Fin 0) pair_calculator = Inr [Fin (- 100000)]"
proof -
  have n: "isnormal (Fin 10)"
    by (simp add: DBL_MIN_def)
  have o: "depth_correction (pair_controls\<lparr>depth_correction := Other 7\<rparr>) \<notin> {NONE, WELL, RES}"
    by simp
  have w: "connectionPressureOffset pair_sources (pair_controls\<lparr>depth_correction := WELL\<rparr>)
        (Fin 10) (Fin 0) pair_calculator = Inr [Fin (- 100000)]"
    using n
    by (simp add: connectionPressureOffset_def connectionPressureOffsetWell_def Let_def
        pair_controls_def pair_calculator_def pair_sources_def pressureOffset_def dsub_def
        finite_result_small)
  show ?thesis
    using n o w connectionPressureOffset_unsupported [of "Fin 10" pair_sources
        "pair_controls\<lparr>depth_correction := Other 7\<rparr>" "Fin 0" pair_calculator]
    by simp
qed

subsection \<open>The published result\<close>

lemma Result_value_linearCombination:
  "Result_value type (linearCombination alpha x beta y)
     = dadd (dmul alpha (Result_value type x)) (dmul beta (Result_value type y))"
  by (cases "wbp x"; cases "wbp y"; cases type)
     (simp_all add: Result_value_def linearCombination_def)

lemma Result_value_getFinalResult:
  "Result_value type (getFinalResult acc) = getAverageValue type acc"
  by (cases type) (simp_all add: Result_value_def getFinalResult_def Result_set_def Result_new_def)

lemma accumulateLocalContributions_returns:
  assumes "connectionPressureOffset sources controls gravity refDepth
             (this\<lparr>accumCTF := prepareAccumulation (accumCTF this),
                   accumPV := prepareAccumulation (accumPV this)\<rparr>) = Inr connDP"
  shows "accumulateLocalContributions dflt sources controls gravity refDepth this =
           Inr (accumulateLocalContributions_indexed dflt sources controls connDP
                  (if open_connections controls then (\<lambda>i. openConns this ! i) else (\<lambda>i. i))
                  (this\<lparr>accumCTF := prepareAccumulation (accumCTF this),
                        accumPV := prepareAccumulation (accumPV this)\<rparr>))"
  using assms connectionPressureOffset_length[OF assms]
  by (simp add: accumulateLocalContributions_def Let_def accumulateLocalContribOpen_def
        accumulateLocalContribAll_def)

text \<open>
  C4. When \<^verbatim>\<open>inferBlockAveragePressures\<close> returns, each published pressure is F2 times
  the final value of the CTF-based accumulator plus (1 - F2) times the final value of the
  pore-volume-based accumulator, F2 being \<^verbatim>\<open>conn_weight()\<close>. It returns for every
  depth-correction mode among NONE, WELL and RES.
\<close>

theorem inferBlockAveragePressures_blend:
  "(inferBlockAveragePressures dflt sources controls gravity refDepth this = Inr that \<longrightarrow>
      Result_value type (averagePressures that)
        = dadd (dmul (conn_weight controls) (Result_value type (getFinalResult (accumCTF that))))
               (dmul (dsub (Fin 1) (conn_weight controls))
                     (Result_value type (getFinalResult (accumPV that)))))
   \<and> (depth_correction controls \<in> {NONE, WELL, RES} \<longrightarrow>
        (\<exists>that. inferBlockAveragePressures dflt sources controls gravity refDepth this = Inr that))"
proof (intro conjI impI)
  assume "inferBlockAveragePressures dflt sources controls gravity refDepth this = Inr that"
  then obtain mid where "that = assignResults controls (collectGlobalContributions mid)"
    by (auto simp add: inferBlockAveragePressures_def split: sum.splits)
  then show "Result_value type (averagePressures that)
        = dadd (dmul (conn_weight controls) (Result_value type (getFinalResult (accumCTF that))))
               (dmul (dsub (Fin 1) (conn_weight controls))
                     (Result_value type (getFinalResult (accumPV that))))"
    by (simp add: assignResults_def collectGlobalContributions_def Let_def
        Result_value_linearCombination)
next
  let ?prepared = "this\<lparr>accumCTF := prepareAccumulation (accumCTF this),
                        accumPV := prepareAccumulation (accumPV this)\<rparr>"
  assume "depth_correction controls \<in> {NONE, WELL, RES}"
  then obtain connDP where
    "connectionPressureOffset sources controls gravity refDepth ?prepared = Inr connDP"
    using connectionPressureOffset_recognised by blast
  then show "\<exists>that. inferBlockAveragePressures dflt sources controls gravity refDepth this = Inr that"
    by (simp add: inferBlockAveragePressures_def accumulateLocalContributions_returns)
qed

lemma pair_infer:
  "inferBlockAveragePressures (Fin (- 1)) pair_sources pair_controls (Fin 0) (Fin 0) pair_calculator
     = Inr (assignResults pair_controls
         (accumulateLocalContributions_weighted (Fin (- 1)) pair_sources pair_controls [Fin 0]
            (\<lambda>i. i) (\<lambda>src. Fin 1)
            (pair_calculator\<lparr>accumCTF := prepareAccumulation Accumulator_new,
                             accumPV := prepareAccumulation Accumulator_new\<rparr>)))"
proof -
  have off: "connectionPressureOffset pair_sources pair_controls (Fin 0) (Fin 0)
      (pair_calculator\<lparr>accumCTF := prepareAccumulation (accumCTF pair_calculator),
                       accumPV := prepareAccumulation (accumPV pair_calculator)\<rparr>) = Inr [Fin 0]"
    by (simp add: connectionPressureOffset_def pair_controls_def pair_calculator_def)
  show ?thesis
    by (simp add: inferBlockAveragePressures_def accumulateLocalContributions_returns[OF off]
        collectGlobalContributions_def accumulateLocalContributions_indexed_def)
       (simp add: pair_controls_def pair_calculator_def)
qed

theorem inferBlockAveragePressures_blend_witness:
  "depth_correction pair_controls \<in> {NONE, WELL, RES}
   \<and> inferBlockAveragePressures (Fin (- 1)) pair_sources pair_controls (Fin 0) (Fin 0)
         pair_calculator
       = Inr (projr (inferBlockAveragePressures (Fin (- 1)) pair_sources pair_controls (Fin 0)
                (Fin 0) pair_calculator))
   \<and> map (\<lambda>type. Result_value type (averagePressures (projr
       (inferBlockAveragePressures (Fin (- 1)) pair_sources pair_controls (Fin 0) (Fin 0)
          pair_calculator)))) [WBP, WBP4, WBP5, WBP9]
     = [Fin 100, Fin 90, Fin 95, Fin 95]"
proof -
  let ?that = "assignResults pair_controls
         (accumulateLocalContributions_weighted (Fin (- 1)) pair_sources pair_controls [Fin 0]
            (\<lambda>i. i) (\<lambda>src. Fin 1)
            (pair_calculator\<lparr>accumCTF := prepareAccumulation Accumulator_new,
                             accumPV := prepareAccumulation Accumulator_new\<rparr>))"
  have ctf: "accumCTF ?that = \<lparr>avg = Array4
        \<lparr>wra_sum = \<lparr>rcs_value = Fin 200, rcs_err = Fin 0\<rparr>,
          wra_weight = \<lparr>rcs_value = Fin 2, rcs_err = Fin 0\<rparr>\<rparr>
        \<lparr>wra_sum = \<lparr>rcs_value = Fin 180, rcs_err = Fin 0\<rparr>,
          wra_weight = \<lparr>rcs_value = Fin 2, rcs_err = Fin 0\<rparr>\<rparr>
        \<lparr>wra_sum = \<lparr>rcs_value = Fin 190, rcs_err = Fin 0\<rparr>,
          wra_weight = \<lparr>rcs_value = Fin 2, rcs_err = Fin 0\<rparr>\<rparr>
        \<lparr>wra_sum = \<lparr>rcs_value = Fin 190, rcs_err = Fin 0\<rparr>,
          wra_weight = \<lparr>rcs_value = Fin 2, rcs_err = Fin 0\<rparr>\<rparr>,
      terms = Array3 WRA_zero WRA_zero WRA_zero\<rparr>"
    by (simp add: assignResults_def Let_def accumulateLocalContributions_weighted_split
        pair_calculator_def pair_controls_def pair_sources_def upt_0_1 record_eval)
  have pv: "accumPV ?that = \<lparr>avg = Array4
        \<lparr>wra_sum = \<lparr>rcs_value = Fin 1000, rcs_err = Fin 0\<rparr>,
          wra_weight = \<lparr>rcs_value = Fin 10, rcs_err = Fin 0\<rparr>\<rparr>
        \<lparr>wra_sum = \<lparr>rcs_value = Fin 450, rcs_err = Fin 0\<rparr>,
          wra_weight = \<lparr>rcs_value = Fin 5, rcs_err = Fin 0\<rparr>\<rparr>
        \<lparr>wra_sum = \<lparr>rcs_value = Fin 1450, rcs_err = Fin 0\<rparr>,
          wra_weight = \<lparr>rcs_value = Fin 15, rcs_err = Fin 0\<rparr>\<rparr>
        \<lparr>wra_sum = \<lparr>rcs_value = Fin 1450, rcs_err = Fin 0\<rparr>,
          wra_weight = \<lparr>rcs_value = Fin 15, rcs_err = Fin 0\<rparr>\<rparr>,
      terms = Array3
        \<lparr>wra_sum = \<lparr>rcs_value = Fin 1000, rcs_err = Fin 0\<rparr>,
          wra_weight = \<lparr>rcs_value = Fin 10, rcs_err = Fin 0\<rparr>\<rparr>
        \<lparr>wra_sum = \<lparr>rcs_value = Fin 450, rcs_err = Fin 0\<rparr>,
          wra_weight = \<lparr>rcs_value = Fin 5, rcs_err = Fin 0\<rparr>\<rparr>
        WRA_zero\<rparr>"
    by (simp add: assignResults_def Let_def accumulateLocalContributions_weighted_split
        pair_calculator_def pair_sources_def upt_0_1 record_eval)
  have blend: "Result_value type (averagePressures ?that)
        = dadd (dmul (conn_weight pair_controls)
                  (Result_value type (getFinalResult (accumCTF ?that))))
               (dmul (dsub (Fin 1) (conn_weight pair_controls))
                  (Result_value type (getFinalResult (accumPV ?that))))" for type
    using inferBlockAveragePressures_blend [of "Fin (- 1)" pair_sources pair_controls "Fin 0"
        "Fin 0" pair_calculator ?that type] pair_infer
    by blast
  have "map (\<lambda>type. Result_value type (averagePressures ?that)) [WBP, WBP4, WBP5, WBP9]
      = [Fin 100, Fin 90, Fin 95, Fin 95]"
    unfolding list.map blend ctf pv Result_value_getFinalResult
    by (simp add: getAverageValue_record value_of_Fin WRA_zero_def RCS_zero_def pair_controls_def
        dsub_def finite_result_small)
  then show ?thesis
    unfolding pair_infer sum.sel by (simp add: pair_controls_def)
qed

subsection \<open>Pruning and the validity of local indices\<close>

lemma filter_all_active: "filter (\<lambda>i. replicate n True ! i) [0..<n] = [0..<n]"
  by (rule filter_True) simp

text \<open>
  C8. The all-true mask as long as the contributing-cell list is
  \<open>replicate (length (contributingCells this)) True\<close>. Pruning with it returns the
  calculator as it was: the cell list, every connection's cell index and neighbour lists,
  and all other members.
\<close>

theorem pruneInactiveWBPCells_all_active:
  "pruneInactiveWBPCells (replicate (length (contributingCells this)) True) this = Inr this"
  by (simp add: pruneInactiveWBPCells_def Let_def filter_all_active)

lemma conn_ok_mono: "conn_ok n c \<Longrightarrow> n \<le> m \<Longrightarrow> conn_ok m c"
  by (auto simp add: conn_ok_def list_all_iff)

lemma list_all_update_back:
  assumes "list_all P xs" and "\<And>x. P x \<Longrightarrow> P (f x)"
  shows "list_all P (update_back f xs)"
proof (cases "xs = []")
  case True
  then show ?thesis by (simp add: update_back_def)
next
  case False
  with assms(1) have "list_all P (butlast xs)" and "P (last xs)"
    by (auto simp add: list_all_iff dest: in_set_butlastD)
  then show ?thesis using False assms(2) by (simp add: update_back_def)
qed

lemma emplace_cases:
  assumes "emplace k v m = (pos, new, m')"
  shows "(new \<and> m k = None \<and> pos = (k, v) \<and> m' = m(k \<mapsto> v))
       \<or> (\<not> new \<and> m k = Some (snd pos) \<and> fst pos = k \<and> m' = m)"
  using assms by (auto simp add: emplace_def split: option.splits)

lemma ran_upd_bound:
  assumes "\<forall>v \<in> ran m. v < (n::nat)" and "w < n'" and "n \<le> n'"
  shows "\<forall>v \<in> ran (m(k \<mapsto> w)). v < n'"
proof
  fix v assume "v \<in> ran (m(k \<mapsto> w))"
  then obtain a where "(m(k \<mapsto> w)) a = Some v" by (auto simp add: ran_def)
  then have "v = w \<or> v \<in> ran m" by (auto simp add: ran_def split: if_splits)
  then show "v < n'"
  proof
    assume "v = w" then show ?thesis using assms(2) by simp
  next
    assume "v \<in> ran m" then have "v < n" using assms(1) by blast
    then show ?thesis using assms(3) by simp
  qed
qed

lemma addNeighbour_invariant:
  assumes "setup_invariant s"
  shows "setup_invariant (addNeighbour neighbour kind s)"
proof (cases neighbour)
  case None
  then show ?thesis using assms by (simp add: addNeighbour_def)
next
  case (Some n)
  obtain this m where s: "s = (this, m)" by (cases s)
  let ?n = "length (contributingCells this)"
  from assms s have ok: "list_all (conn_ok ?n) (connections this)"
    and rn: "\<forall>v \<in> ran m. v < ?n"
    by (simp_all add: setup_invariant_def valid_indices_def)
  obtain pos new m' where e: "emplace n ?n m = (pos, new, m')"
    by (cases "emplace n ?n m") auto
  let ?n' = "if new then Suc ?n else ?n"
  from emplace_cases[OF e] have pos: "snd pos < ?n'"
    using rn by (auto simp add: ran_def)
  from emplace_cases[OF e] have rn': "\<forall>v \<in> ran m'. v < ?n'"
    using rn ran_upd_bound[OF rn, of ?n "Suc ?n" n] by auto
  have ok': "list_all (conn_ok ?n') (connections this)"
    using ok by (auto simp add: list_all_iff intro: conn_ok_mono)
  have r: "list_all (conn_ok ?n') (update_back
             (\<lambda>c. c\<lparr>rectNeighbours := rectNeighbours c @ [snd pos]\<rparr>) (connections this))"
    by (rule list_all_update_back[OF ok']) (use pos in \<open>simp add: conn_ok_def\<close>)
  have d: "list_all (conn_ok ?n') (update_back
             (\<lambda>c. c\<lparr>diagNeighbours := diagNeighbours c @ [snd pos]\<rparr>) (connections this))"
    by (rule list_all_update_back[OF ok']) (use pos in \<open>simp add: conn_ok_def\<close>)
  show ?thesis
    using r d rn'
    by (cases new; cases kind)
       (simp_all add: addNeighbour_def Some s e Let_def setup_invariant_def valid_indices_def)
qed

lemma fold_addNeighbour_invariant:
  "setup_invariant s \<Longrightarrow>
   setup_invariant (fold (\<lambda>(neighbour, kind). addNeighbour neighbour kind) ns s)"
proof (induction ns arbitrary: s)
  case Nil
  then show ?case by simp
next
  case (Cons x ns)
  obtain a b where x: "x = (a, b)" by (cases x)
  have "setup_invariant (addNeighbour a b s)"
    using Cons.prems by (rule addNeighbour_invariant)
  then show ?case using Cons.IH by (simp add: x)
qed

lemma addNeighbours_invariant:
  assumes "setup_invariant s"
  shows "setup_invariant (addNeighbours_X g s)"
    and "setup_invariant (addNeighbours_Y g s)"
    and "setup_invariant (addNeighbours_Z g s)"
  unfolding addNeighbours_X_def addNeighbours_Y_def addNeighbours_Z_def Let_def case_prod_beta
  by (rule fold_addNeighbour_invariant[OF assms, unfolded case_prod_beta])+

lemma addConnection_invariant:
  assumes "setup_invariant s"
  shows "setup_invariant (addConnection g conn s)"
proof -
  obtain this m where s: "s = (this, m)" by (cases s)
  let ?n = "length (contributingCells this)"
  from assms s have ok: "list_all (conn_ok ?n) (connections this)"
    and rn: "\<forall>v \<in> ran m. v < ?n"
    by (simp_all add: setup_invariant_def valid_indices_def)
  obtain pos new m' where e: "emplace (global_index conn) ?n m = (pos, new, m')"
    by (cases "emplace (global_index conn) ?n m") auto
  let ?n' = "if new then Suc ?n else ?n"
  from emplace_cases[OF e] have pos: "snd pos < ?n'"
    using rn by (auto simp add: ran_def)
  from emplace_cases[OF e] have rn': "\<forall>v \<in> ran m'. v < ?n'"
    using rn ran_upd_bound[OF rn, of ?n "Suc ?n" "global_index conn"] by auto
  have ok': "list_all (conn_ok ?n') (connections this)"
    using ok by (auto simp add: list_all_iff intro: conn_ok_mono)
  define this1 where "this1 = (if new
      then this\<lparr>contributingCells := contributingCells this @ [fst pos]\<rparr> else this)"
  define this2 where "this2 = (if state conn = OPEN
      then this1\<lparr>openConns := openConns this1 @ [length (connections this1)]\<rparr> else this1)"
  define this3 where "this3 = this2\<lparr>connections := connections this2 @
      [\<lparr>ctf = CF conn, depth = conn_depth conn, cell = snd pos,
        rectNeighbours = [], diagNeighbours = []\<rparr>]\<rparr>"
  have inv3: "setup_invariant (this3, m')"
    using ok' rn' pos
    by (cases new)
       (simp_all add: this3_def this2_def this1_def setup_invariant_def valid_indices_def
          conn_ok_def)
  have "addConnection g conn s =
      (if dir conn = DirX then addNeighbours_X g (this3, m')
       else if dir conn = DirY then addNeighbours_Y g (this3, m')
       else if dir conn = DirZ then addNeighbours_Z g (this3, m')
       else (this3, m'))"
    by (simp add: addConnection_def s e Let_def this3_def this2_def this1_def)
  then show ?thesis using inv3 by (simp add: addNeighbours_invariant)
qed

lemma fold_addConnection_invariant:
  "setup_invariant s \<Longrightarrow> setup_invariant (fold (addConnection g) conns s)"
  by (induction conns arbitrary: s) (simp_all add: addConnection_invariant)

lemma constructor_valid: "valid_indices (PAvgCalculator_new g conns)"
proof -
  have "setup_invariant (PAvgCalculator_empty, Map.empty)"
    by (simp add: setup_invariant_def valid_indices_def PAvgCalculator_empty_def)
  then have "setup_invariant (fold (addConnection g) conns (PAvgCalculator_empty, Map.empty))"
    by (rule fold_addConnection_invariant)
  then show ?thesis by (simp add: PAvgCalculator_new_def setup_invariant_def)
qed



lemma fold_update_bound:
  assumes "\<forall>i \<in> set is. g i < (k::nat)" and "\<forall>x \<in> set ix. x < k"
  shows "\<forall>x \<in> set (fold (\<lambda>i ix. ix[f i := g i]) is ix). x < k"
  using assms
proof (induction "is" arbitrary: ix)
  case Nil
  then show ?case by simp
next
  case (Cons i "is")
  have "\<forall>x \<in> set (ix[f i := g i]). x < k"
    using Cons.prems set_update_subset_insert[of ix "f i" "g i"] by auto
  then show ?case using Cons by simp
qed

lemma prune_valid:
  assumes v: "valid_indices this"
    and p: "pruneInactiveWBPCells isActive this = Inr this'"
    and a: "connections this = [] \<or> True \<in> set isActive"
  shows "valid_indices this'"
proof -
  let ?n = "length isActive"
  let ?activeIx = "filter (\<lambda>i. isActive ! i) [0..<?n]"
  let ?k = "length ?activeIx"
  let ?newIndex = "fold (\<lambda>i ix. ix[?activeIx ! i := i]) [0..<?k] (replicate ?n 0)"
  from p have len: "?n = length (contributingCells this)"
    by (simp add: pruneInactiveWBPCells_def split: if_splits)
  show ?thesis
  proof (cases "?k = ?n")
    case True
    with p len have "this' = this"
      by (simp add: pruneInactiveWBPCells_def Let_def)
    then show ?thesis using v by simp
  next
    case False
    with p len have this': "this' = this\<lparr>contributingCells :=
          map (\<lambda>origCell. contributingCells this ! origCell) ?activeIx,
        connections := map (\<lambda>conn.
          conn\<lparr>cell := ?newIndex ! cell conn,
               rectNeighbours := map (\<lambda>neighbour. ?newIndex ! neighbour)
                 (filter (\<lambda>neighbour. isActive ! neighbour) (rectNeighbours conn)),
               diagNeighbours := map (\<lambda>neighbour. ?newIndex ! neighbour)
                 (filter (\<lambda>neighbour. isActive ! neighbour) (diagNeighbours conn))\<rparr>)
          (connections this)\<rparr>"
      by (simp add: pruneInactiveWBPCells_def Let_def)
    show ?thesis
    proof (cases "connections this = []")
      case True
      then show ?thesis by (simp add: this' valid_indices_def)
    next
      case False
      with a have "True \<in> set isActive" by simp
      then obtain j where j: "j < ?n" "isActive ! j"
        by (auto simp add: in_set_conv_nth)
      then have "j \<in> set ?activeIx" by simp
      then have k: "0 < ?k" by (rule length_pos_if_in_set)
      have bound: "\<forall>x \<in> set ?newIndex. x < ?k"
        by (rule fold_update_bound) (use k in simp_all)
      have nlen: "length ?newIndex = ?n"
        by (simp add: fold_update_length)
      have at: "?newIndex ! i < ?k" if "i < ?n" for i
      proof -
        from that have "i < length ?newIndex" by (simp only: nlen)
        then have "?newIndex ! i \<in> set ?newIndex" by (rule nth_mem)
        with bound show ?thesis by (rule bspec)
      qed
      have "conn_ok ?k
          (conn\<lparr>cell := ?newIndex ! cell conn,
               rectNeighbours := map (\<lambda>neighbour. ?newIndex ! neighbour)
                 (filter (\<lambda>neighbour. isActive ! neighbour) (rectNeighbours conn)),
               diagNeighbours := map (\<lambda>neighbour. ?newIndex ! neighbour)
                 (filter (\<lambda>neighbour. isActive ! neighbour) (diagNeighbours conn))\<rparr>)"
        if "conn \<in> set (connections this)" for conn
      proof -
        from v that have c: "conn_ok ?n conn"
          by (simp add: valid_indices_def len list_all_iff)
        then show ?thesis
          using at by (auto simp add: conn_ok_def list_all_iff)
      qed
      then show ?thesis
        by (simp add: this' valid_indices_def list_all_iff)
    qed
  qed
qed

lemma pruneInactiveWBPCells_returns:
  "length isActive = length (contributingCells this) \<Longrightarrow>
   \<exists>that. pruneInactiveWBPCells isActive this = Inr that"
  by (simp add: pruneInactiveWBPCells_def Let_def)

lemma valid_indices_row_calculator: "valid_indices row_calculator"
  by (simp add: valid_indices_def conn_ok_def row_calculator_def)

text \<open>
  C9, as the code has it. The calculator that the constructor builds has valid indices:
  every cell index and every rectangular or diagonal neighbour index of every connection
  is below the length of the contributing-cell list. Pruning keeps the indices valid for
  every mask of matching length that marks at least one cell active, and for every mask when
  there is no connection.
\<close>

theorem valid_indices_invariant:
  "valid_indices (PAvgCalculator_new cellIndexMap conns)
   \<and> (valid_indices this \<and> length isActive = length (contributingCells this)
        \<and> (connections this = [] \<or> True \<in> set isActive) \<longrightarrow>
        (\<exists>that. pruneInactiveWBPCells isActive this = Inr that \<and> valid_indices that))"
proof (intro conjI impI)
  show "valid_indices (PAvgCalculator_new cellIndexMap conns)"
    by (rule constructor_valid)
next
  assume h: "valid_indices this \<and> length isActive = length (contributingCells this)
        \<and> (connections this = [] \<or> True \<in> set isActive)"
  then obtain that where p: "pruneInactiveWBPCells isActive this = Inr that"
    using pruneInactiveWBPCells_returns by blast
  with h have "valid_indices that"
    using prune_valid by blast
  with p show "\<exists>that. pruneInactiveWBPCells isActive this = Inr that \<and> valid_indices that"
    by blast
qed

theorem valid_indices_invariant_witness:
  "valid_indices (PAvgCalculator_new row_grid row_connections)
   \<and> valid_indices row_calculator
   \<and> length [True, True, True, False] = length (contributingCells row_calculator)
   \<and> True \<in> set [True, True, True, False]
   \<and> valid_indices (projr (pruneInactiveWBPCells [True, True, True, False] row_calculator))"
proof -
  have l: "length [True, True, True, False] = length (contributingCells row_calculator)"
    by (simp add: row_calculator_def)
  have t: "True \<in> set [True, True, True, False]"
    by simp
  from valid_indices_invariant [of row_grid row_connections row_calculator
      "[True, True, True, False]"] valid_indices_row_calculator l t
  obtain that where "valid_indices (PAvgCalculator_new row_grid row_connections)"
    and "pruneInactiveWBPCells [True, True, True, False] row_calculator = Inr that"
    and "valid_indices that"
    by blast
  then show ?thesis
    using valid_indices_row_calculator l t by simp
qed

text \<open>
  C9, as the specification states it, fails for a mask of matching length that marks every
  cell inactive. The calculator built for the row of five cells has valid indices; pruned
  with that mask it has an empty contributing-cell list, while both connections keep the
  cell index 0 that \<open>newIndex\<close> holds for an inactive cell.
\<close>

theorem valid_indices_lost_counterexample:
  "valid_indices (PAvgCalculator_new row_grid row_connections)
   \<and> length [False, False, False, False]
       = length (contributingCells (PAvgCalculator_new row_grid row_connections))
   \<and> pruneInactiveWBPCells [False, False, False, False]
         (PAvgCalculator_new row_grid row_connections)
       = Inr (row_calculator\<lparr>contributingCells := [],
                connections := [\<lparr>ctf = Fin 2, depth = Fin 10, cell = 0,
                                  rectNeighbours = [], diagNeighbours = []\<rparr>,
                                \<lparr>ctf = Fin 1, depth = Fin 10, cell = 0,
                                  rectNeighbours = [], diagNeighbours = []\<rparr>]\<rparr>)
   \<and> \<not> valid_indices (row_calculator\<lparr>contributingCells := [],
                connections := [\<lparr>ctf = Fin 2, depth = Fin 10, cell = 0,
                                  rectNeighbours = [], diagNeighbours = []\<rparr>,
                                \<lparr>ctf = Fin 1, depth = Fin 10, cell = 0,
                                  rectNeighbours = [], diagNeighbours = []\<rparr>]\<rparr>)"
  unfolding row_calculator_built
  by (simp add: valid_indices_row_calculator)
     (simp add: pruneInactiveWBPCells_def row_calculator_def valid_indices_def conn_ok_def Let_def)

end
